theory Spec2Isabelle
  imports Complex_Main "HOL-Library.Char_ord" "HOL-Library.List_Lexorder"
begin

section \<open>Data model (src/hooks/useInventory.ts)\<close>

text \<open>
  A JavaScript \<open>number\<close> is modelled as an exact rational; NaN and the infinities are
  outside the model. A JavaScript string is a \<open>string\<close>. A plain object used as a
  dictionary is an association list whose order is the enumeration order of the keys
  (\<open>for ... in\<close>, \<open>Object.keys\<close>, \<open>Object.entries\<close>); a property read \<open>obj[k]\<close> is
  \<open>map_of obj k\<close>, an absent property being \<open>None\<close>.
\<close>

type_synonym number = rat

record Product =
  product_id :: string
  name :: string
  quantity :: number
  barcode :: string
  imageUrl :: string
  price :: number
  brand :: string
  description :: "string option"
  wholesaleQuantityThreshold :: "number option"
  wholesalePrice :: "number option"
  lowStockThreshold :: "number option"

type_synonym InventoryData = "(string \<times> Product list) list"

type_synonym Inventory = "(string \<times> InventoryData) list"

text \<open>\<open>String.prototype.toLowerCase\<close>, on the ASCII letters.\<close>

definition toLowerCase_char :: "char \<Rightarrow> char" where
  "toLowerCase_char c =
     (case map_of (zip ''ABCDEFGHIJKLMNOPQRSTUVWXYZ'' ''abcdefghijklmnopqrstuvwxyz'') c of
        Some l \<Rightarrow> l
      | None \<Rightarrow> c)"

definition toLowerCase :: "string \<Rightarrow> string" where
  "toLowerCase s = map toLowerCase_char s"

text \<open>\<open>Object.keys(inventory).sort()\<close>: the default sort compares strings code unit by code unit.\<close>

definition getPointsOfSale :: "Inventory \<Rightarrow> string list" where
  "getPointsOfSale inventory = sort (map fst inventory)"

text \<open>The predicate handed to \<open>products.find\<close> in \<open>getProductDetailsInPos\<close>.\<close>

definition matchesIdentifier :: "string \<Rightarrow> Product \<Rightarrow> bool" where
  "matchesIdentifier identifier p \<longleftrightarrow>
     barcode p = identifier \<or> toLowerCase (name p) = toLowerCase identifier"

text \<open>\<open>inventory[pos][brand]\<close>, with the fallback \<open>[]\<close> of the source.\<close>

definition productsOfBrand :: "InventoryData \<Rightarrow> string \<Rightarrow> Product list" where
  "productsOfBrand posInventory brandName =
     (case map_of posInventory brandName of None \<Rightarrow> [] | Some products \<Rightarrow> products)"

text \<open>The loop \<open>for (const brand in inventory[pos])\<close>, over the keys still to visit.\<close>

fun findInBrands :: "InventoryData \<Rightarrow> string \<Rightarrow> string list \<Rightarrow> Product option" where
  "findInBrands posInventory identifier [] = None"
| "findInBrands posInventory identifier (brandName # rest) =
     (case find (matchesIdentifier identifier) (productsOfBrand posInventory brandName) of
        Some product \<Rightarrow> Some product
      | None \<Rightarrow> findInBrands posInventory identifier rest)"

definition getProductDetailsInPos :: "Inventory \<Rightarrow> string \<Rightarrow> string \<Rightarrow> Product option" where
  "getProductDetailsInPos inventory pos identifier =
     (case map_of inventory pos of
        None \<Rightarrow> None
      | Some posInventory \<Rightarrow> findInBrands posInventory identifier (map fst posInventory))"

text \<open>
  The loop of \<open>getProductDetails\<close> and of \<open>getProductDetailsForUser\<close>: the first point of
  sale of the list in which the product is found, returned with the product
  (\<open>{ ...details, pos }\<close>).
\<close>

fun findInPointsOfSale :: "Inventory \<Rightarrow> string \<Rightarrow> string list \<Rightarrow> (Product \<times> string) option" where
  "findInPointsOfSale inventory identifier [] = None"
| "findInPointsOfSale inventory identifier (pos # rest) =
     (case getProductDetailsInPos inventory pos identifier of
        Some details \<Rightarrow> Some (details, pos)
      | None \<Rightarrow> findInPointsOfSale inventory identifier rest)"

definition getProductDetails :: "Inventory \<Rightarrow> string \<Rightarrow> (Product \<times> string) option" where
  "getProductDetails inventory identifier =
     findInPointsOfSale inventory identifier (map fst inventory)"


section \<open>Access control (src/context/InventoryContext.tsx)\<close>

record User =
  user_id :: string
  user_name :: string
  allowedPOS :: "string list"

definition getPointsOfSaleForUser :: "Inventory \<Rightarrow> User option \<Rightarrow> string list" where
  "getPointsOfSaleForUser inventory currentUser =
     (let allPos = getPointsOfSale inventory in
      case currentUser of
        None \<Rightarrow> []
      | Some u \<Rightarrow>
          if allowedPOS u = [] then []
          else if ''*'' \<in> set (allowedPOS u) then allPos
          else filter (\<lambda>pos. pos \<in> set (allowedPOS u)) allPos)"

definition getProductDetailsForUser ::
  "Inventory \<Rightarrow> User option \<Rightarrow> string \<Rightarrow> (Product \<times> string) option" where
  "getProductDetailsForUser inventory currentUser identifier =
     (case currentUser of
        None \<Rightarrow> None
      | Some u \<Rightarrow>
          if allowedPOS u = [] then None
          else
            let accessiblePOS =
                  (if ''*'' \<in> set (allowedPOS u) then getPointsOfSale inventory
                   else allowedPOS u)
            in findInPointsOfSale inventory identifier accessiblePOS)"


section \<open>Sample data\<close>

text \<open>A small inventory with two points of sale, used to evaluate the definitions.\<close>

definition demoProduct ::
  "string \<Rightarrow> string \<Rightarrow> string \<Rightarrow> number \<Rightarrow> number option \<Rightarrow> Product" where
  "demoProduct b n br q t =
     \<lparr>product_id = b, name = n, quantity = q, barcode = b, imageUrl = [], price = 10,
      brand = br, description = None, wholesaleQuantityThreshold = None,
      wholesalePrice = None, lowStockThreshold = t\<rparr>"

definition demoInventory :: Inventory where
  "demoInventory =
     [(''Norte'', [(''Nivea'', [demoProduct ''222'' ''Crema'' ''Nivea'' 3 None]),
                   (''Loreal'', [demoProduct ''111'' ''Champu Norte'' ''Loreal'' 0 None,
                                 demoProduct ''333'' ''Tinte'' ''Loreal'' 7 (Some 8)])]),
      (''Centro'', [(''Loreal'', [demoProduct ''111'' ''Champu'' ''Loreal'' 4 None])])]"

definition demoUser :: User where
  "demoUser = \<lparr>user_id = ''user-2'', user_name = ''Ana'', allowedPOS = [''Centro'', ''Sur'']\<rparr>"



section \<open>Low-stock listing (src/app/low-stock/page.tsx)\<close>













text \<open>
  \<open>Array.prototype.sort\<close> with a comparison function is a stable sort; it is modelled as
  insertion sort, \<open>le a b\<close> standing for \<open>compare(a, b) <= 0\<close>.
\<close>

fun insertBy :: "('a \<Rightarrow> 'a \<Rightarrow> bool) \<Rightarrow> 'a \<Rightarrow> 'a list \<Rightarrow> 'a list" where
  "insertBy le x [] = [x]"
| "insertBy le x (y # ys) = (if le x y then x # y # ys else y # insertBy le x ys)"

definition sortBy :: "('a \<Rightarrow> 'a \<Rightarrow> bool) \<Rightarrow> 'a list \<Rightarrow> 'a list" where
  "sortBy le xs = foldr (insertBy le) xs []"











section \<open>Loading the inventory (src/hooks/useInventory.ts, \<open>fetchInitialInventory\<close>)\<close>

text \<open>
  An awaited promise either resolves with a value or rejects with an \<open>Error\<close>, of which
  the model keeps the message.
\<close>

datatype 'a promise = Resolved 'a | Rejected string

text \<open>
  What \<open>response.json()\<close> yields on the error path: \<open>null\<close>, or a value whose
  \<open>message\<close> property is read (\<open>None\<close> when it is absent).
\<close>

datatype errorData = JsonNull | JsonValue "string option"

text \<open>
  The response of \<open>fetch\<close>: \<open>response.ok\<close> with its body read as an \<open>Inventory\<close>, or a
  response that is not ok, with its status, status text and body.
\<close>

datatype response =
    OkResponse "Inventory promise"
  | ErrorResponse nat string "errorData promise"

record InventoryState =
  st_inventory :: Inventory
  st_isInventoryLoaded :: bool
  st_error :: "string option"

definition INVENTORY_API_ENDPOINT :: string where
  "INVENTORY_API_ENDPOINT = ''/api/php/get_inventory.php''"

text \<open>A number inside a template literal: its decimal digits.\<close>

definition digit_char :: "nat \<Rightarrow> char" where
  "digit_char d = ''0123456789'' ! d"

fun show_nat :: "nat \<Rightarrow> string" where
  "show_nat n = (if n < 10 then [digit_char n] else show_nat (n div 10) @ [digit_char (n mod 10)])"

text \<open>\<open>a || b\<close> on strings: the empty string and \<open>undefined\<close> are falsy.\<close>

definition orElse :: "string option \<Rightarrow> string \<Rightarrow> string" where
  "orElse a b = (case a of None \<Rightarrow> b | Some s \<Rightarrow> if s = [] then b else s)"

text \<open>
  The body of the \<open>try\<close> block: \<open>Inl\<close> is the message of the error thrown, \<open>Inr\<close> the
  data handed to \<open>setInventory\<close>. Reading \<open>message\<close> of \<open>null\<close> throws a \<open>TypeError\<close>.
\<close>

definition tryLoad :: "response promise \<Rightarrow> string + Inventory" where
  "tryLoad fetched =
     (case fetched of
        Rejected m \<Rightarrow> Inl m
      | Resolved (ErrorResponse status statusText body) \<Rightarrow>
          (let errorData =
                 (case body of
                    Rejected _ \<Rightarrow> JsonValue (Some (''Error del servidor: '' @ show_nat status))
                  | Resolved v \<Rightarrow> v)
           in case errorData of
                JsonNull \<Rightarrow> Inl ''Cannot read properties of null (reading 'message')''
              | JsonValue message \<Rightarrow>
                  Inl (orElse message (''Error al cargar el inventario: '' @ statusText)))
      | Resolved (OkResponse body) \<Rightarrow>
          (case body of Rejected m \<Rightarrow> Inl m | Resolved data \<Rightarrow> Inr data))"

definition fetchInitialInventory :: "response promise \<Rightarrow> InventoryState \<Rightarrow> InventoryState" where
  "fetchInitialInventory fetched s =
     (let s1 = s\<lparr>st_isInventoryLoaded := False\<rparr>;
          s2 = s1\<lparr>st_error := None\<rparr>;
          s3 = (case tryLoad fetched of
                  Inr data \<Rightarrow> s2\<lparr>st_inventory := data\<rparr>
                | Inl message \<Rightarrow>
                    s2\<lparr>st_error := Some (orElse (Some message) ''No se pudo cargar el inventario.''),
                       st_inventory := []\<rparr>)
      in s3\<lparr>st_isInventoryLoaded := True\<rparr>)"

text \<open>
  The hook on mount: the initial state of the three \<open>useState\<close> calls, and the effect
  with the empty dependency list, which runs once. The network is a function from the
  URL fetched to what \<open>fetch\<close> yields; the result is the state after the effect and the
  list of URLs requested.
\<close>

definition useInventory_mount :: "(string \<Rightarrow> response promise) \<Rightarrow> InventoryState \<times> string list" where
  "useInventory_mount network =
     (let initial = \<lparr>st_inventory = [], st_isInventoryLoaded = False, st_error = None\<rparr>
      in (fetchInitialInventory (network INVENTORY_API_ENDPOINT) initial, [INVENTORY_API_ENDPOINT]))"


text \<open>Three networks: a server error with an unreadable body, an unreadable body, and a good answer.\<close>

definition failingNetwork :: "string \<Rightarrow> response promise" where
  "failingNetwork url = Resolved (ErrorResponse 500 ''Internal Server Error'' (Rejected ''Unexpected token''))"

definition unparsableNetwork :: "string \<Rightarrow> response promise" where
  "unparsableNetwork url = Resolved (OkResponse (Rejected ''Unexpected token < in JSON''))"

definition workingNetwork :: "string \<Rightarrow> response promise" where
  "workingNetwork url = Resolved (OkResponse (Resolved demoInventory))"


section \<open>Recording a sale (the sales page, src/unnamed/part_005)\<close>

text \<open>\<open>String.prototype.trim\<close>, on the ASCII white space.\<close>

definition isSpace :: "char \<Rightarrow> bool" where
  "isSpace c \<longleftrightarrow> c \<in> set [CHR '' '', CHR 0x09, CHR 0x0A, CHR 0x0B, CHR 0x0C, CHR 0x0D]"

definition trim :: "string \<Rightarrow> string" where
  "trim s = rev (dropWhile isSpace (rev (dropWhile isSpace s)))"


datatype PaymentMethod = Cash | Card | Transfer




record SaleRecordItem =
  sold_barcode :: string
  sold_productName :: string
  sold_brandName :: string
  sold_quantity :: number
  sold_price :: number


text \<open>
  What a submission does, up to the request: the titles of the toasts shown, the errors
  left in the form state, and the requests sent (URL and JSON body). A form error is
  either the resolver's (the schema rejected the values) or the one \<open>onSubmit\<close> sets on
  \<open>items.i.quantity\<close>, with the stock it reports. Titles are written in ASCII, without
  the accents of the source.
\<close>

datatype formError = SchemaError | QuantityError nat number

record 'p SubmitEffects =
  toasts :: "string list"
  formErrors :: "formError list"
  requests :: "(string \<times> 'p) list"












section \<open>Recording a supplier entry (the suppliers page, src/unnamed/part_003)\<close>

record SupplierProductForm =
  sp_identifier :: string
  sp_barcode :: string
  sp_productName :: string
  sp_brandName :: string
  sp_quantity :: number
  sp_purchasePrice :: number
  sp_sellingPrice :: "number option"
  sp_imageUrl :: "string option"
  sp_description :: "string option"
  sp_aiHint :: "string option"
  sp_isKnownProduct :: bool
  sp_wholesaleQuantityThreshold :: "number option"
  sp_wholesalePrice :: "number option"
  sp_lowStockThreshold :: "number option"

record SupplierFormValues =
  supplierName :: string
  supplier_pointOfSale :: string
  products :: "SupplierProductForm list"

text \<open>
  \<open>supplierProductSchema\<close> and \<open>supplierFormSchema\<close>. An optional, nullable field is
  \<open>None\<close> when it is absent or null. What the validation library accepts as a URL is a
  parameter.
\<close>

definition optionally :: "('a \<Rightarrow> bool) \<Rightarrow> 'a option \<Rightarrow> bool" where
  "optionally P v = (case v of None \<Rightarrow> True | Some x \<Rightarrow> P x)"

definition supplierProductSchema :: "(string \<Rightarrow> bool) \<Rightarrow> SupplierProductForm \<Rightarrow> bool" where
  "supplierProductSchema isUrl p \<longleftrightarrow>
     sp_barcode p \<noteq> [] \<and> sp_productName p \<noteq> [] \<and> sp_brandName p \<noteq> [] \<and>
     sp_quantity p \<ge> 1 \<and> sp_purchasePrice p > 0 \<and>
     optionally (\<lambda>v. v > 0) (sp_sellingPrice p) \<and>
     optionally (\<lambda>u. isUrl u \<or> u = []) (sp_imageUrl p) \<and>
     optionally (\<lambda>v. v \<ge> 1) (sp_wholesaleQuantityThreshold p) \<and>
     optionally (\<lambda>v. v > 0) (sp_wholesalePrice p) \<and>
     optionally (\<lambda>v. v \<ge> 0) (sp_lowStockThreshold p)"

definition supplierFormSchema :: "(string \<Rightarrow> bool) \<Rightarrow> SupplierFormValues \<Rightarrow> bool" where
  "supplierFormSchema isUrl data \<longleftrightarrow>
     supplierName data \<noteq> [] \<and> supplier_pointOfSale data \<noteq> [] \<and>
     list_all (supplierProductSchema isUrl) (products data) \<and> length (products data) \<ge> 1 \<and>
     list_all (\<lambda>item. sp_barcode item \<noteq> [] \<and> trim (sp_barcode item) \<noteq> [] \<and>
                      sp_productName item \<noteq> [] \<and> trim (sp_productName item) \<noteq> [] \<and>
                      sp_brandName item \<noteq> [] \<and> trim (sp_brandName item) \<noteq> [])
       (products data)"

record SupplierPayloadProduct =
  pp_barcode :: string
  pp_productName :: string
  pp_brandName :: string
  pp_quantity :: number
  pp_purchasePrice :: number
  pp_sellingPrice :: "number option"
  pp_imageUrl :: "string option"
  pp_description :: "string option"
  pp_aiHint :: "string option"
  pp_wholesaleQuantityThreshold :: "number option"
  pp_wholesalePrice :: "number option"
  pp_lowStockThreshold :: "number option"
  pp_isKnownProductInPos :: bool
  pp_currentSellingPriceInPos :: "number option"

record SupplierPayload =
  entry_supplierName :: string
  entry_pointOfSale :: string
  entry_userId :: string
  entry_userName :: string
  entry_products :: "SupplierPayloadProduct list"
  entry_dateTime :: string

text \<open>The filter and the map that build \<open>newEntryPayload.products\<close>.\<close>

definition qualifies :: "SupplierProductForm \<Rightarrow> bool" where
  "qualifies p \<longleftrightarrow>
     sp_barcode p \<noteq> [] \<and> sp_productName p \<noteq> [] \<and> sp_brandName p \<noteq> [] \<and> sp_quantity p > 0"

definition toPayloadProduct :: "Inventory \<Rightarrow> string \<Rightarrow> SupplierProductForm \<Rightarrow> SupplierPayloadProduct" where
  "toPayloadProduct inventory pos p =
     \<lparr>pp_barcode = sp_barcode p,
      pp_productName = sp_productName p,
      pp_brandName = sp_brandName p,
      pp_quantity = sp_quantity p,
      pp_purchasePrice = sp_purchasePrice p,
      pp_sellingPrice = sp_sellingPrice p,
      pp_imageUrl = sp_imageUrl p,
      pp_description = sp_description p,
      pp_aiHint = sp_aiHint p,
      pp_wholesaleQuantityThreshold = sp_wholesaleQuantityThreshold p,
      pp_wholesalePrice = sp_wholesalePrice p,
      pp_lowStockThreshold = sp_lowStockThreshold p,
      pp_isKnownProductInPos = (getProductDetailsInPos inventory pos (sp_barcode p) \<noteq> None),
      pp_currentSellingPriceInPos = map_option price (getProductDetailsInPos inventory pos (sp_barcode p))\<rparr>"

text \<open>\<open>onSubmit\<close>; \<open>now\<close> is \<open>new Date().toISOString()\<close>.\<close>

definition onSubmit_supplier ::
  "Inventory \<Rightarrow> User option \<Rightarrow> string \<Rightarrow> SupplierFormValues \<Rightarrow> SupplierPayload SubmitEffects" where
  "onSubmit_supplier inventory currentUser now data =
     (let accessiblePOS = getPointsOfSaleForUser inventory currentUser;
          canUserAddStock = (length accessiblePOS > 0);
          denied = \<lparr>toasts = [''Acceso Denegado''], formErrors = [], requests = []\<rparr>
      in case currentUser of
           None \<Rightarrow> denied
         | Some u \<Rightarrow>
             if \<not> canUserAddStock \<or> supplier_pointOfSale data \<notin> set accessiblePOS then denied
             else
               let newEntryPayload =
                     \<lparr>entry_supplierName = supplierName data,
                      entry_pointOfSale = supplier_pointOfSale data,
                      entry_userId = user_id u,
                      entry_userName = user_name u,
                      entry_products =
                        map (toPayloadProduct inventory (supplier_pointOfSale data))
                          (filter qualifies (products data)),
                      entry_dateTime = now\<rparr>
               in if length (entry_products newEntryPayload) = 0
                  then \<lparr>toasts = [''Entrada Invalida''], formErrors = [], requests = []\<rparr>
                  else \<lparr>toasts = [], formErrors = [],
                        requests = [(''/api/php/add_supplier_entry.php'', newEntryPayload)]\<rparr>)"

text \<open>\<open>form.handleSubmit(onSubmit)\<close> with the schema resolver.\<close>

definition handleSubmit_supplier ::
  "(string \<Rightarrow> bool) \<Rightarrow> Inventory \<Rightarrow> User option \<Rightarrow> string \<Rightarrow> SupplierFormValues
     \<Rightarrow> SupplierPayload SubmitEffects" where
  "handleSubmit_supplier isUrl inventory currentUser now data =
     (if supplierFormSchema isUrl data then onSubmit_supplier inventory currentUser now data
      else \<lparr>toasts = [], formErrors = [SchemaError], requests = []\<rparr>)"

text \<open>Sample supplier forms for the point of sale \<open>Centro\<close>.\<close>

definition demoSupplierProduct :: "string \<Rightarrow> string \<Rightarrow> string \<Rightarrow> number \<Rightarrow> SupplierProductForm" where
  "demoSupplierProduct b n br q =
     \<lparr>sp_identifier = b, sp_barcode = b, sp_productName = n, sp_brandName = br, sp_quantity = q,
      sp_purchasePrice = 3, sp_sellingPrice = None, sp_imageUrl = None, sp_description = None,
      sp_aiHint = None, sp_isKnownProduct = False, sp_wholesaleQuantityThreshold = None,
      sp_wholesalePrice = None, sp_lowStockThreshold = None\<rparr>"

definition demoEntry :: "string \<Rightarrow> SupplierProductForm list \<Rightarrow> SupplierFormValues" where
  "demoEntry pos ps = \<lparr>supplierName = ''Distribuidora'', supplier_pointOfSale = pos, products = ps\<rparr>"


section \<open>The inventory context value (src/context/InventoryContext.tsx)\<close>

text \<open>
  The object returned by the hook and the context value built from it, as JavaScript
  sees them: properties with values, where reading a property that the object does not
  have yields \<open>undefined\<close>, and calling a value that is not a function throws a
  \<open>TypeError\<close>. A function value is represented by the name of the function it refers to.
\<close>

datatype jsval =
    Undefined
  | InventoryVal Inventory
  | BoolVal bool
  | ErrorVal "string option"
  | FunctionVal string

datatype jsError = TypeError | ContextError

type_synonym jsObject = "(string \<times> jsval) list"

definition getProp :: "jsObject \<Rightarrow> string \<Rightarrow> jsval" where
  "getProp obj key = (case map_of obj key of None \<Rightarrow> Undefined | Some v \<Rightarrow> v)"

text \<open>A call \<open>f(...)\<close>: \<open>Inr\<close> names the function entered, \<open>Inl\<close> is the error thrown.\<close>

definition invoke :: "jsval \<Rightarrow> jsError + string" where
  "invoke v = (case v of FunctionVal f \<Rightarrow> Inr f | _ \<Rightarrow> Inl TypeError)"

text \<open>The \<open>return\<close> of \<open>useInventory\<close> (src/hooks/useInventory.ts).\<close>

definition useInventory :: "InventoryState \<Rightarrow> jsObject" where
  "useInventory s =
     [(''inventory'', InventoryVal (st_inventory s)),
      (''isInventoryLoaded'', BoolVal (st_isInventoryLoaded s)),
      (''error'', ErrorVal (st_error s)),
      (''getPointsOfSale'', FunctionVal ''getPointsOfSale''),
      (''getProductDetails'', FunctionVal ''getProductDetails''),
      (''getProductDetailsInPos'', FunctionVal ''getProductDetailsInPos'')]"

text \<open>\<open>contextValue\<close> of \<open>InventoryProvider\<close>, from \<open>inventoryHookData\<close>.\<close>

definition contextValue :: "jsObject \<Rightarrow> jsObject" where
  "contextValue inventoryHookData =
     [(''inventory'', getProp inventoryHookData ''inventory''),
      (''isInventoryLoaded'', getProp inventoryHookData ''isInventoryLoaded''),
      (''getPointsOfSaleForUser'', FunctionVal ''getPointsOfSaleForUser''),
      (''getAllPointsOfSale'', getProp inventoryHookData ''getPointsOfSale''),
      (''updateProductQuantity'', getProp inventoryHookData ''updateProductQuantity''),
      (''addProduct'', getProp inventoryHookData ''addProduct''),
      (''updateProductPrice'', getProp inventoryHookData ''updateProductPrice''),
      (''getProductDetailsForUser'', FunctionVal ''getProductDetailsForUser''),
      (''getProductDetailsAnywhere'', getProp inventoryHookData ''getProductDetails''),
      (''getProductDetailsInPos'', getProp inventoryHookData ''getProductDetailsInPos'')]"

text \<open>
  \<open>useInventoryContext\<close>: the value of the nearest provider, or an error outside of any
  provider (the context is then \<open>undefined\<close>).
\<close>

definition useInventoryContext :: "jsObject option \<Rightarrow> jsError + jsObject" where
  "useInventoryContext context = (case context of None \<Rightarrow> Inl ContextError | Some v \<Rightarrow> Inr v)"

text \<open>What a consumer below \<open>InventoryProvider\<close> gets when the hook is in state \<open>s\<close>.\<close>

definition consumerContext :: "InventoryState \<Rightarrow> jsError + jsObject" where
  "consumerContext s = useInventoryContext (Some (contextValue (useInventory s)))"


section \<open>The supplier-entry endpoint (src/add\_supplier\_entry\_example.php)\<close>

text \<open>
  The tables the script reads and writes. A table with a key the script selects by is an
  association list on that key; the two log tables are lists of rows. The generated
  \<open>stock_id\<close> is left out: a stock row is identified by barcode and point of sale, as in
  the script's \<open>SELECT\<close>.
\<close>

record ProductRow =
  p_name :: string
  p_brand_name :: string
  p_default_selling_price :: number
  p_image_url :: "string option"
  p_description :: "string option"
  p_ai_hint :: "string option"
  p_wholesale_quantity_threshold :: "int option"
  p_wholesale_price :: "number option"
  p_default_low_stock_threshold :: "int option"

record StockRow =
  s_quantity :: int
  s_pos_specific_selling_price :: "number option"
  s_pos_specific_low_stock_threshold :: "int option"
  s_last_stocked_at :: string

record EntryRow =
  e_entry_id :: string
  e_date_time :: string
  e_supplier_name :: string
  e_pos_id :: nat
  e_user_id_internal :: "nat option"
  e_user_name_at_entry :: "string option"

record ItemRow =
  i_entry_id :: string
  i_product_barcode :: string
  i_quantity_received :: int
  i_purchase_price_per_unit :: number
  i_product_description_at_entry :: "string option"
  i_old_selling_price_at_entry :: "number option"
  i_new_selling_price_at_entry :: "number option"
  i_wholesale_quantity_threshold_at_entry :: "int option"
  i_wholesale_price_at_entry :: "number option"
  i_low_stock_threshold_at_entry :: "int option"

record Database =
  points_of_sale :: "(string \<times> nat) list"
  users :: "(string \<times> nat) list"
  supplier_entries :: "EntryRow list"
  products_table :: "(string \<times> ProductRow) list"
  supplier_entry_items :: "ItemRow list"
  inventory_stock :: "((string \<times> nat) \<times> StockRow) list"

text \<open>
  The PDO connection on transactional tables: the committed database is what is
  persisted; statements inside a transaction change the working copy, \<open>commit\<close> persists
  it and \<open>rollBack\<close> discards it.
\<close>

record Connection =
  committed :: Database
  working :: Database
  inTransaction :: bool

definition beginTransaction :: "Connection \<Rightarrow> Connection" where
  "beginTransaction c = c\<lparr>working := committed c, inTransaction := True\<rparr>"

definition commit :: "Connection \<Rightarrow> Connection" where
  "commit c = c\<lparr>committed := working c, inTransaction := False\<rparr>"

definition rollBack :: "Connection \<Rightarrow> Connection" where
  "rollBack c = c\<lparr>working := committed c, inTransaction := False\<rparr>"

definition execute :: "(Database \<Rightarrow> Database) \<Rightarrow> Connection \<Rightarrow> Connection" where
  "execute statement c = c\<lparr>working := statement (working c)\<rparr>"

text \<open>\<open>INSERT\<close> or \<open>UPDATE\<close> of the row with a given key.\<close>

definition upsert :: "'k \<Rightarrow> 'v \<Rightarrow> ('k \<times> 'v) list \<Rightarrow> ('k \<times> 'v) list" where
  "upsert k v table =
     (if k \<in> set (map fst table) then map (\<lambda>(k', v'). if k' = k then (k', v) else (k', v')) table
      else table @ [(k, v)])"

text \<open>The decoded JSON body. A property that is absent or null is \<open>None\<close>; an absent string is empty.\<close>

record ProductData =
  pd_barcode :: string
  pd_productName :: string
  pd_brandName :: string
  pd_quantity :: "number option"
  pd_purchasePrice :: "number option"
  pd_sellingPrice :: "number option"
  pd_imageUrl :: "string option"
  pd_description :: "string option"
  pd_aiHint :: "string option"
  pd_wholesaleQuantityThreshold :: "number option"
  pd_wholesalePrice :: "number option"
  pd_lowStockThreshold :: "number option"

record EntryInput =
  in_supplierName :: string
  in_pointOfSale :: string
  in_userId :: string
  in_userName :: "string option"
  in_products :: "ProductData list"

text \<open>PHP's \<open>empty\<close> on a string, \<open>trim\<close>, \<open>intval\<close>, and \<open>!=\<close> between a number and a nullable column.\<close>

definition php_empty :: "string \<Rightarrow> bool" where
  "php_empty s \<longleftrightarrow> s = [] \<or> s = ''0''"

definition php_isSpace :: "char \<Rightarrow> bool" where
  "php_isSpace c \<longleftrightarrow> c \<in> set [CHR '' '', CHR 0x09, CHR 0x0A, CHR 0x0D, CHR 0x00, CHR 0x0B]"

definition php_trim :: "string \<Rightarrow> string" where
  "php_trim s = rev (dropWhile php_isSpace (rev (dropWhile php_isSpace s)))"

definition intval :: "number \<Rightarrow> int" where
  "intval q = (if q \<ge> 0 then \<lfloor>q\<rfloor> else \<lceil>q\<rceil>)"

definition loose_neq :: "'a::zero \<Rightarrow> 'a option \<Rightarrow> bool" where
  "loose_neq x column = (case column of None \<Rightarrow> x \<noteq> 0 | Some v \<Rightarrow> x \<noteq> v)"

datatype exn = PosNotFound | InvalidProduct string | PDOException

text \<open>
  Step 4 of the script for one product. \<open>dbFails n\<close> tells whether the database refuses
  the \<open>n\<close>-th statement (a \<open>PDOException\<close>): the statements of the product at index \<open>k\<close>
  are numbered \<open>3 + 3 * k\<close> (table \<open>products\<close>), \<open>4 + 3 * k\<close> (the entry item) and
  \<open>5 + 3 * k\<close> (table \<open>inventory_stock\<close>). The result is the exception thrown, with the
  connection at that point, or the connection after the three statements.
\<close>

definition invalidProductData :: "ProductData \<Rightarrow> bool" where
  "invalidProductData pd \<longleftrightarrow>
     php_empty (pd_barcode pd) \<or> php_empty (pd_productName pd) \<or> php_empty (pd_brandName pd) \<or>
     (case pd_quantity pd of None \<Rightarrow> True | Some q \<Rightarrow> q \<le> 0) \<or>
     (case pd_purchasePrice pd of None \<Rightarrow> True | Some v \<Rightarrow> v \<le> 0)"

definition updatedProductRow :: "ProductData \<Rightarrow> ProductRow \<Rightarrow> ProductRow" where
  "updatedProductRow pd existing_product =
     (let product_name = php_trim (pd_productName pd);
          brand_name = php_trim (pd_brandName pd);
          image_url_payload = map_option php_trim (pd_imageUrl pd);
          description_payload = map_option php_trim (pd_description pd);
          ai_hint_payload = map_option php_trim (pd_aiHint pd);
          wholesale_threshold_payload = map_option intval (pd_wholesaleQuantityThreshold pd);
          wholesale_price_payload = pd_wholesalePrice pd;
          low_stock_threshold_payload = map_option intval (pd_lowStockThreshold pd);
          r1 = (if product_name \<noteq> p_name existing_product
                then existing_product\<lparr>p_name := product_name\<rparr> else existing_product);
          r2 = (if brand_name \<noteq> p_brand_name existing_product
                then r1\<lparr>p_brand_name := brand_name\<rparr> else r1);
          r3 = (if image_url_payload \<noteq> None \<and> image_url_payload \<noteq> p_image_url existing_product
                then r2\<lparr>p_image_url := image_url_payload\<rparr> else r2);
          r4 = (if description_payload \<noteq> None \<and> description_payload \<noteq> p_description existing_product
                then r3\<lparr>p_description := description_payload\<rparr> else r3);
          r5 = (if ai_hint_payload \<noteq> None \<and> ai_hint_payload \<noteq> p_ai_hint existing_product
                then r4\<lparr>p_ai_hint := ai_hint_payload\<rparr> else r4);
          r6 = (case wholesale_threshold_payload of
                  None \<Rightarrow> r5
                | Some t \<Rightarrow> if loose_neq t (p_wholesale_quantity_threshold existing_product)
                            then r5\<lparr>p_wholesale_quantity_threshold := Some t\<rparr> else r5);
          r7 = (case wholesale_price_payload of
                  None \<Rightarrow> r6
                | Some v \<Rightarrow> if loose_neq v (p_wholesale_price existing_product)
                            then r6\<lparr>p_wholesale_price := Some v\<rparr> else r6)
      in case low_stock_threshold_payload of
           None \<Rightarrow> r7
         | Some t \<Rightarrow> if loose_neq t (p_default_low_stock_threshold existing_product)
                     then r7\<lparr>p_default_low_stock_threshold := Some t\<rparr> else r7)"

definition newProductRow :: "ProductData \<Rightarrow> number \<Rightarrow> ProductRow" where
  "newProductRow pd purchase_price =
     \<lparr>p_name = php_trim (pd_productName pd),
      p_brand_name = php_trim (pd_brandName pd),
      p_default_selling_price =
        (case pd_sellingPrice pd of None \<Rightarrow> purchase_price * (3 / 2) | Some v \<Rightarrow> v),
      p_image_url = map_option php_trim (pd_imageUrl pd),
      p_description = map_option php_trim (pd_description pd),
      p_ai_hint = map_option php_trim (pd_aiHint pd),
      p_wholesale_quantity_threshold = map_option intval (pd_wholesaleQuantityThreshold pd),
      p_wholesale_price = pd_wholesalePrice pd,
      p_default_low_stock_threshold = map_option intval (pd_lowStockThreshold pd)\<rparr>"

definition processProduct ::
  "(nat \<Rightarrow> bool) \<Rightarrow> string \<Rightarrow> string \<Rightarrow> nat \<Rightarrow> nat \<Rightarrow> ProductData \<Rightarrow> Connection
     \<Rightarrow> (exn \<times> Connection) + Connection" where
  "processProduct dbFails entry_id date_time pos_id k pd c =
     (if invalidProductData pd then Inl (InvalidProduct (pd_barcode pd), c)
      else
        let barcode_v = php_trim (pd_barcode pd);
            quantity_received = intval (the (pd_quantity pd));
            purchase_price = the (pd_purchasePrice pd);
            selling_price_payload = pd_sellingPrice pd;
            low_stock_threshold_payload = map_option intval (pd_lowStockThreshold pd);
            existing_product = map_of (products_table (working c)) barcode_v
        in if dbFails (3 + 3 * k) then Inl (PDOException, c)
           else
             let c1 = execute (\<lambda>db. db\<lparr>products_table :=
                         upsert barcode_v
                           (case existing_product of
                              None \<Rightarrow> newProductRow pd purchase_price
                            | Some row \<Rightarrow> updatedProductRow pd row)
                           (products_table db)\<rparr>) c;
                 old_selling_price_for_item_entry = map_option p_default_selling_price existing_product
             in if dbFails (4 + 3 * k) then Inl (PDOException, c1)
                else
                  let c2 = execute (\<lambda>db. db\<lparr>supplier_entry_items := supplier_entry_items db @
                              [\<lparr>i_entry_id = entry_id,
                                i_product_barcode = barcode_v,
                                i_quantity_received = quantity_received,
                                i_purchase_price_per_unit = purchase_price,
                                i_product_description_at_entry = map_option php_trim (pd_description pd),
                                i_old_selling_price_at_entry = old_selling_price_for_item_entry,
                                i_new_selling_price_at_entry = selling_price_payload,
                                i_wholesale_quantity_threshold_at_entry =
                                  map_option intval (pd_wholesaleQuantityThreshold pd),
                                i_wholesale_price_at_entry = pd_wholesalePrice pd,
                                i_low_stock_threshold_at_entry = low_stock_threshold_payload\<rparr>]\<rparr>) c1;
                      existing_stock_item = map_of (inventory_stock (working c2)) (barcode_v, pos_id)
                  in if dbFails (5 + 3 * k) then Inl (PDOException, c2)
                     else
                       Inr (execute (\<lambda>db. db\<lparr>inventory_stock :=
                              upsert (barcode_v, pos_id)
                                (case existing_stock_item of
                                   Some row \<Rightarrow>
                                     row\<lparr>s_quantity := s_quantity row + quantity_received,
                                         s_last_stocked_at := date_time,
                                         s_pos_specific_selling_price :=
                                           (case selling_price_payload of
                                              None \<Rightarrow> s_pos_specific_selling_price row
                                            | Some v \<Rightarrow> Some v),
                                         s_pos_specific_low_stock_threshold :=
                                           (case low_stock_threshold_payload of
                                              None \<Rightarrow> s_pos_specific_low_stock_threshold row
                                            | Some t \<Rightarrow> Some t)\<rparr>
                                 | None \<Rightarrow>
                                     \<lparr>s_quantity = quantity_received,
                                      s_pos_specific_selling_price =
                                        Some (case selling_price_payload of
                                                Some v \<Rightarrow> v
                                              | None \<Rightarrow>
                                                  (case existing_product of
                                                     Some row \<Rightarrow> p_default_selling_price row
                                                   | None \<Rightarrow> purchase_price * (3 / 2))),
                                      s_pos_specific_low_stock_threshold =
                                        (case low_stock_threshold_payload of
                                           Some t \<Rightarrow> Some t
                                         | None \<Rightarrow>
                                             (case existing_product of
                                                Some row \<Rightarrow> p_default_low_stock_threshold row
                                              | None \<Rightarrow> None)),
                                      s_last_stocked_at = date_time\<rparr>)
                                (inventory_stock db)\<rparr>) c2))"

text \<open>The \<open>foreach\<close> over the products, from index \<open>k\<close> on: it stops at the first exception.\<close>

fun processProducts ::
  "(nat \<Rightarrow> bool) \<Rightarrow> string \<Rightarrow> string \<Rightarrow> nat \<Rightarrow> nat \<Rightarrow> ProductData list \<Rightarrow> Connection
     \<Rightarrow> (exn \<times> Connection) + Connection" where
  "processProducts dbFails entry_id date_time pos_id k [] c = Inr c"
| "processProducts dbFails entry_id date_time pos_id k (pd # rest) c =
     (case processProduct dbFails entry_id date_time pos_id k pd c of
        Inl thrown \<Rightarrow> Inl thrown
      | Inr c' \<Rightarrow> processProducts dbFails entry_id date_time pos_id (Suc k) rest c')"

text \<open>
  The \<open>try\<close> block: statements 0 to 2 look up the point of sale and the user and insert the
  entry; the last statement is the \<open>commit\<close>.
\<close>

definition tryBlock ::
  "(nat \<Rightarrow> bool) \<Rightarrow> string \<Rightarrow> string \<Rightarrow> EntryInput \<Rightarrow> Connection \<Rightarrow> (exn \<times> Connection) + Connection" where
  "tryBlock dbFails entry_id date_time input c =
     (let supplier_name = php_trim (in_supplierName input);
          point_of_sale_name = php_trim (in_pointOfSale input);
          user_app_id = php_trim (in_userId input);
          user_name_at_entry = map_option php_trim (in_userName input)
      in if dbFails 0 then Inl (PDOException, c)
         else case map_of (points_of_sale (working c)) point_of_sale_name of
                None \<Rightarrow> Inl (PosNotFound, c)
              | Some pos_id \<Rightarrow>
                  if \<not> php_empty user_app_id \<and> dbFails 1 then Inl (PDOException, c)
                  else
                    let user_id_internal =
                          (if php_empty user_app_id then None
                           else map_of (users (working c)) user_app_id)
                    in if dbFails 2 then Inl (PDOException, c)
                       else
                         let c1 = execute (\<lambda>db. db\<lparr>supplier_entries := supplier_entries db @
                                     [\<lparr>e_entry_id = entry_id, e_date_time = date_time,
                                       e_supplier_name = supplier_name, e_pos_id = pos_id,
                                       e_user_id_internal = user_id_internal,
                                       e_user_name_at_entry = user_name_at_entry\<rparr>]\<rparr>) c
                         in case processProducts dbFails entry_id date_time pos_id 0 (in_products input) c1 of
                              Inl thrown \<Rightarrow> Inl thrown
                            | Inr c2 \<Rightarrow>
                                if dbFails (3 + 3 * length (in_products input)) then Inl (PDOException, c2)
                                else Inr (commit c2))"

text \<open>
  The script: the HTTP status it answers with, and the connection when it ends. The
  generated entry id and the current time are parameters; \<open>None\<close> is a body that is not
  JSON.
\<close>

definition add_supplier_entry ::
  "(nat \<Rightarrow> bool) \<Rightarrow> string \<Rightarrow> string \<Rightarrow> EntryInput option \<Rightarrow> Connection \<Rightarrow> nat \<times> Connection" where
  "add_supplier_entry dbFails entry_id date_time input_data pdo =
     (case input_data of
        None \<Rightarrow> (400, pdo)
      | Some input \<Rightarrow>
          if php_empty (in_supplierName input) \<or> php_empty (in_pointOfSale input) \<or>
             php_empty (in_userId input) \<or> in_products input = []
          then (400, pdo)
          else
            case tryBlock dbFails entry_id date_time input (beginTransaction pdo) of
              Inr c \<Rightarrow> (201, c)
            | Inl (e, c) \<Rightarrow> (500, if inTransaction c then rollBack c else c))"







section \<open>Product sales chart (src/app/grafica/page.tsx)\<close>

text \<open>
  A \<open>Date\<close> is its time value in milliseconds; \<open>None\<close> is an invalid date. The sale
  records are those of the page state, after the load effect turned each \<open>dateTime\<close> into
  a \<open>Date\<close>.
\<close>

record SaleRecord =
  rec_id :: string
  rec_dateTime :: "int option"
  rec_pointOfSale :: string
  rec_items :: "SaleRecordItem list"
  rec_paymentMethod :: PaymentMethod
  rec_totalAmount :: number

record DateRange =
  range_from :: "int option"
  range_to :: "int option"

record ChartDataPoint =
  cp_date :: string
  cp_sales :: number

text \<open>
  The date library, in the time zone of the browser, is a parameter: the days of an
  interval (\<open>eachDayOfInterval\<close>), and the day of the month and the month of a date, which
  \<open>format(date, 'dd/MM')\<close> prints with two digits each.
\<close>

record Calendar =
  eachDayOfInterval :: "int \<Rightarrow> int \<Rightarrow> int list"
  dayOfMonth :: "int \<Rightarrow> nat"
  monthOfYear :: "int \<Rightarrow> nat"

definition pad2 :: "nat \<Rightarrow> string" where
  "pad2 n = (if n < 10 then CHR ''0'' # show_nat n else show_nat n)"

definition format_ddMM :: "Calendar \<Rightarrow> int \<Rightarrow> string" where
  "format_ddMM cal date = pad2 (dayOfMonth cal date) @ ''/'' @ pad2 (monthOfYear cal date)"

text \<open>
  \<open>a.date.split('/').map(Number)\<close>, on the labels written by \<open>format\<close>: \<open>Number\<close> reads a
  string of decimal digits. (On any other string the source gets \<open>NaN\<close>, which the model
  does not represent.)
\<close>

fun split_str :: "char \<Rightarrow> string \<Rightarrow> string list" where
  "split_str sep [] = [[]]"
| "split_str sep (c # cs) =
     (if c = sep then [] # split_str sep cs
      else case split_str sep cs of
             part # parts \<Rightarrow> (c # part) # parts
           | [] \<Rightarrow> [[c]])"

definition digit_value :: "char \<Rightarrow> nat" where
  "digit_value c =
     (case map_of (zip ''0123456789'' [0, 1, 2, 3, 4, 5, 6, 7, 8, 9]) c of
        Some d \<Rightarrow> d
      | None \<Rightarrow> 0)"

definition Number :: "string \<Rightarrow> nat" where
  "Number s = foldl (\<lambda>n c. 10 * n + digit_value c) 0 s"

definition parseLabel :: "string \<Rightarrow> int \<times> int" where
  "parseLabel label =
     (case map Number (split_str CHR ''/'' label) of
        day # month # rest \<Rightarrow> (int day, int month)
      | _ \<Rightarrow> (0, 0))"

text \<open>The comparison function of the final \<open>sort\<close>.\<close>

definition compareLabels :: "ChartDataPoint \<Rightarrow> ChartDataPoint \<Rightarrow> int" where
  "compareLabels a b =
     (let (dayA, monthA) = parseLabel (cp_date a);
          (dayB, monthB) = parseLabel (cp_date b)
      in if monthA \<noteq> monthB then monthA - monthB else dayA - dayB)"

text \<open>
  \<open>chartDataMap\<close> is a \<open>Map\<close>: an association list in insertion order; \<open>set\<close> on a key
  that is present replaces its value in place.
\<close>

definition mapSet :: "'k \<Rightarrow> 'v \<Rightarrow> ('k \<times> 'v) list \<Rightarrow> ('k \<times> 'v) list" where
  "mapSet k v m =
     (if k \<in> set (map fst m) then map (\<lambda>(k', v'). if k' = k then (k', v) else (k', v')) m
      else m @ [(k, v)])"

definition addItem ::
  "string \<Rightarrow> string \<Rightarrow> (string \<times> number) list \<Rightarrow> SaleRecordItem \<Rightarrow> (string \<times> number) list" where
  "addItem selectedProductBarcode dayKey chartDataMap item =
     (if sold_barcode item = selectedProductBarcode
      then mapSet dayKey
             ((case map_of chartDataMap dayKey of None \<Rightarrow> 0 | Some v \<Rightarrow> v) + sold_quantity item)
             chartDataMap
      else chartDataMap)"

definition addSale ::
  "Calendar \<Rightarrow> string \<Rightarrow> int \<Rightarrow> int \<Rightarrow> (string \<times> number) list \<Rightarrow> SaleRecord
     \<Rightarrow> (string \<times> number) list" where
  "addSale cal selectedProductBarcode startDate endDate chartDataMap sale =
     (case rec_dateTime sale of
        None \<Rightarrow> chartDataMap
      | Some saleDate \<Rightarrow>
          if saleDate \<ge> startDate \<and> saleDate \<le> endDate
          then foldl (addItem selectedProductBarcode (format_ddMM cal saleDate)) chartDataMap
                 (rec_items sale)
          else chartDataMap)"

text \<open>The effect that computes \<open>productSalesChartData\<close>.\<close>

definition productSalesChart ::
  "Calendar \<Rightarrow> string option \<Rightarrow> DateRange option \<Rightarrow> bool \<Rightarrow> SaleRecord list \<Rightarrow> SaleRecord list
     \<Rightarrow> ChartDataPoint list" where
  "productSalesChart cal selectedProductBarcode productChartDateRange isClient
       allSalesData allWholesaleSalesData =
     (case selectedProductBarcode of
        None \<Rightarrow> []
      | Some selected \<Rightarrow>
          if selected = [] then []
          else
            case productChartDateRange of
              None \<Rightarrow> []
            | Some dateRange \<Rightarrow>
                (case range_from dateRange of
                   None \<Rightarrow> []
                 | Some startDate \<Rightarrow>
                     if \<not> isClient \<or> (length allSalesData = 0 \<and> length allWholesaleSalesData = 0)
                     then []
                     else
                       let combinedSales = allSalesData @ allWholesaleSalesData;
                           endDate = (case range_to dateRange of None \<Rightarrow> startDate | Some t \<Rightarrow> t);
                           daysInPeriod = eachDayOfInterval cal startDate endDate;
                           emptyMap = foldl (\<lambda>m day. mapSet (format_ddMM cal day) 0 m) [] daysInPeriod;
                           chartDataMap =
                             foldl (addSale cal selected startDate endDate) emptyMap combinedSales
                       in sortBy (\<lambda>a b. compareLabels a b \<le> 0)
                            (map (\<lambda>(date, sales). \<lparr>cp_date = date, cp_sales = sales\<rparr>) chartDataMap)))"

text \<open>
  A calendar to run the chart with: days of 86400000 ms from the epoch, in months of 30
  days. And three sales of the product \<open>111\<close>, one of them with an invalid date.
\<close>

definition demoCalendar :: Calendar where
  "demoCalendar =
     \<lparr>eachDayOfInterval =
        (\<lambda>start end. map (\<lambda>d. int d * 86400000)
                        [nat (start div 86400000) ..< Suc (nat (end div 86400000))]),
      dayOfMonth = (\<lambda>date. nat (date div 86400000) mod 30 + 1),
      monthOfYear = (\<lambda>date. (nat (date div 86400000) div 30) mod 12 + 1)\<rparr>"

definition demoSaleRecord :: "string \<Rightarrow> int option \<Rightarrow> number \<Rightarrow> SaleRecord" where
  "demoSaleRecord i date q =
     \<lparr>rec_id = i, rec_dateTime = date, rec_pointOfSale = ''Centro'',
      rec_items = [\<lparr>sold_barcode = ''111'', sold_productName = ''Champu'', sold_brandName = ''Loreal'',
                    sold_quantity = q, sold_price = 10\<rparr>,
                   \<lparr>sold_barcode = ''222'', sold_productName = ''Crema'', sold_brandName = ''Nivea'',
                    sold_quantity = 1, sold_price = 8\<rparr>],
      rec_paymentMethod = Cash, rec_totalAmount = 10 * q + 8\<rparr>"

definition demoRange :: DateRange where
  "demoRange = \<lparr>range_from = Some 0, range_to = Some 259199999\<rparr>"


text \<open>Notions used to reason about the loops of the chart.\<close>

definition valueAt :: "(string \<times> number) list \<Rightarrow> string \<Rightarrow> number" where
  "valueAt m k = (case map_of m k of None \<Rightarrow> 0 | Some v \<Rightarrow> v)"

definition soldOf :: "string \<Rightarrow> SaleRecord \<Rightarrow> number" where
  "soldOf b sale = (\<Sum>item\<leftarrow>filter (\<lambda>item. sold_barcode item = b) (rec_items sale). sold_quantity item)"

definition onLabel :: "Calendar \<Rightarrow> int \<Rightarrow> int \<Rightarrow> string \<Rightarrow> SaleRecord \<Rightarrow> bool" where
  "onLabel cal s e k sale =
     (case rec_dateTime sale of None \<Rightarrow> False | Some t \<Rightarrow> s \<le> t \<and> t \<le> e \<and> format_ddMM cal t = k)"

definition hasItem :: "string \<Rightarrow> SaleRecord \<Rightarrow> bool" where
  "hasItem b sale \<longleftrightarrow> (\<exists>item\<in>set (rec_items sale). sold_barcode item = b)"


section \<open>Product lookup\<close>




lemma findInPointsOfSale_Some_first:
  "findInPointsOfSale inventory i ps = Some (p, pos) \<Longrightarrow>
     \<exists>n<length ps. ps ! n = pos \<and> getProductDetailsInPos inventory pos i = Some p \<and>
        (\<forall>m<n. getProductDetailsInPos inventory (ps ! m) i = None)"
proof (induction ps)
  case Nil
  then show ?case by simp
next
  case (Cons k ks)
  show ?case
  proof (cases "getProductDetailsInPos inventory k i")
    case None
    with Cons.prems have "findInPointsOfSale inventory i ks = Some (p, pos)" by simp
    from Cons.IH [OF this] obtain n where n: "n < length ks" "ks ! n = pos"
      "getProductDetailsInPos inventory pos i = Some p"
      "\<forall>m<n. getProductDetailsInPos inventory (ks ! m) i = None"
      by blast
    have "\<forall>m<Suc n. getProductDetailsInPos inventory ((k # ks) ! m) i = None"
      using None n(4) by (auto simp: less_Suc_eq_0_disj)
    with n(1,2,3) show ?thesis
      by (intro exI [of _ "Suc n"]) simp
  next
    case (Some q)
    with Cons.prems have "q = p" "k = pos" by simp_all
    with Some show ?thesis by (intro exI [of _ 0]) simp
  qed
qed

lemmas demo_defs = demoInventory_def demoProduct_def getProductDetails_def
  getProductDetailsInPos_def productsOfBrand_def matchesIdentifier_def toLowerCase_def
  toLowerCase_char_def




section \<open>Access control\<close>

lemma getPointsOfSaleForUser_set:
  "''*'' \<notin> set (allowedPOS u) \<Longrightarrow>
     set (getPointsOfSaleForUser inventory (Some u)) = set (map fst inventory) \<inter> set (allowedPOS u)"
  by (auto simp: getPointsOfSaleForUser_def getPointsOfSale_def Let_def)

lemma findInBrands_mem:
  "findInBrands d i ks = Some p \<Longrightarrow> \<exists>b\<in>set ks. p \<in> set (productsOfBrand d b)"
  by (induction ks) (auto simp: find_Some_iff split: option.splits)

lemma getProductDetailsInPos_mem:
  "getProductDetailsInPos inventory pos i = Some p \<Longrightarrow>
     \<exists>d b. map_of inventory pos = Some d \<and> b \<in> set (map fst d) \<and> p \<in> set (productsOfBrand d b)"
proof -
  assume a: "getProductDetailsInPos inventory pos i = Some p"
  then obtain d where d: "map_of inventory pos = Some d"
    and f: "findInBrands d i (map fst d) = Some p"
    by (auto simp: getProductDetailsInPos_def split: option.splits)
  from findInBrands_mem [OF f] d show ?thesis by blast
qed

lemma findInPointsOfSale_cong:
  "\<forall>pos\<in>set ps. map_of inv1 pos = map_of inv2 pos \<Longrightarrow>
     findInPointsOfSale inv1 i ps = findInPointsOfSale inv2 i ps"
  by (induction ps) (auto simp: getProductDetailsInPos_def split: option.splits)

text \<open>
  Claim C6. For a user whose \<open>allowedPOS\<close> has no \<open>*\<close>, \<open>getPointsOfSaleForUser\<close>
  returns the sorted points of sale of the inventory that are in \<open>allowedPOS\<close>;
  \<open>getProductDetailsForUser\<close> returns only a product listed in a point of sale of
  \<open>allowedPOS\<close>, and its result does not depend on the other points of sale. Without a
  current user, or with an empty \<open>allowedPOS\<close>, the first returns the empty list and
  the second returns null.
\<close>

theorem user_access_restricted:
  "(''*'' \<notin> set (allowedPOS u) \<longrightarrow>
      getPointsOfSaleForUser inventory (Some u) =
        filter (\<lambda>pos. pos \<in> set (allowedPOS u)) (sort (map fst inventory)) \<and>
      set (getPointsOfSaleForUser inventory (Some u)) =
        set (map fst inventory) \<inter> set (allowedPOS u) \<and>
      (\<forall>p pos. getProductDetailsForUser inventory (Some u) identifier = Some (p, pos) \<longrightarrow>
         pos \<in> set (allowedPOS u) \<and>
         (\<exists>d b. map_of inventory pos = Some d \<and> b \<in> set (map fst d) \<and>
            p \<in> set (productsOfBrand d b))) \<and>
      (\<forall>inventory'. (\<forall>pos\<in>set (allowedPOS u). map_of inventory' pos = map_of inventory pos) \<longrightarrow>
         getProductDetailsForUser inventory' (Some u) identifier =
         getProductDetailsForUser inventory (Some u) identifier))
   \<and> (currentUser = None \<or> (\<exists>v. currentUser = Some v \<and> allowedPOS v = []) \<longrightarrow>
      getPointsOfSaleForUser inventory currentUser = [] \<and>
      getProductDetailsForUser inventory currentUser identifier = None)"
proof (intro conjI impI allI)
  assume star: "''*'' \<notin> set (allowedPOS u)"
  show "getPointsOfSaleForUser inventory (Some u) =
        filter (\<lambda>pos. pos \<in> set (allowedPOS u)) (sort (map fst inventory))"
    using star by (cases "allowedPOS u = []") (simp_all add: getPointsOfSaleForUser_def getPointsOfSale_def Let_def)
  show "set (getPointsOfSaleForUser inventory (Some u)) =
        set (map fst inventory) \<inter> set (allowedPOS u)"
    using star by (rule getPointsOfSaleForUser_set)
  {
    fix p pos
    assume r: "getProductDetailsForUser inventory (Some u) identifier = Some (p, pos)"
    with star have f: "findInPointsOfSale inventory identifier (allowedPOS u) = Some (p, pos)"
      by (simp add: getProductDetailsForUser_def split: if_splits)
    from findInPointsOfSale_Some_first [OF f]
    obtain n where n: "n < length (allowedPOS u)" "allowedPOS u ! n = pos"
      "getProductDetailsInPos inventory pos identifier = Some p"
      by blast
    from n(1,2) show "pos \<in> set (allowedPOS u)" by auto
    from getProductDetailsInPos_mem [OF n(3)]
    show "\<exists>d b. map_of inventory pos = Some d \<and> b \<in> set (map fst d) \<and>
            p \<in> set (productsOfBrand d b)" .
  }
  {
    fix inventory'
    assume "\<forall>pos\<in>set (allowedPOS u). map_of inventory' pos = map_of inventory pos"
    from findInPointsOfSale_cong [OF this] star
    show "getProductDetailsForUser inventory' (Some u) identifier =
         getProductDetailsForUser inventory (Some u) identifier"
      by (simp add: getProductDetailsForUser_def)
  }
next
  assume "currentUser = None \<or> (\<exists>v. currentUser = Some v \<and> allowedPOS v = [])"
  then show "getPointsOfSaleForUser inventory currentUser = []"
    by (auto simp: getPointsOfSaleForUser_def Let_def)
next
  assume "currentUser = None \<or> (\<exists>v. currentUser = Some v \<and> allowedPOS v = [])"
  then show "getProductDetailsForUser inventory currentUser identifier = None"
    by (auto simp: getProductDetailsForUser_def)
qed

theorem user_access_restricted_witness:
  "''*'' \<notin> set (allowedPOS demoUser)
   \<and> getPointsOfSaleForUser demoInventory (Some demoUser) = [''Centro'']
   \<and> getProductDetailsForUser demoInventory (Some demoUser) ''111'' =
       Some (demoProduct ''111'' ''Champu'' ''Loreal'' 4 None, ''Centro'')
   \<and> getProductDetailsForUser demoInventory (Some demoUser) ''222'' = None
   \<and> getPointsOfSaleForUser demoInventory None = []
   \<and> getProductDetailsForUser demoInventory None ''111'' = None"
proof -
  have star: "''*'' \<notin> set (allowedPOS demoUser)"
    by (simp add: demoUser_def)
  have "getPointsOfSaleForUser demoInventory (Some demoUser) =
          filter (\<lambda>pos. pos \<in> set (allowedPOS demoUser)) (sort (map fst demoInventory))"
    and "getPointsOfSaleForUser demoInventory None = []"
    and "getProductDetailsForUser demoInventory None ''111'' = None"
    using user_access_restricted [of demoUser demoInventory "''111''" None] star
    by blast+
  moreover have "filter (\<lambda>pos. pos \<in> set (allowedPOS demoUser)) (sort (map fst demoInventory)) =
      [''Centro'']"
    by (simp add: demoUser_def demoInventory_def)
  moreover have "getProductDetailsForUser demoInventory (Some demoUser) ''111'' =
       Some (demoProduct ''111'' ''Champu'' ''Loreal'' 4 None, ''Centro'')"
    by (simp add: getProductDetailsForUser_def demoUser_def demo_defs)
  moreover have "getProductDetailsForUser demoInventory (Some demoUser) ''222'' = None"
    by (simp add: getProductDetailsForUser_def demoUser_def demo_defs)
  ultimately show ?thesis using star by simp
qed



section \<open>Low-stock listing\<close>























lemma set_insertBy: "set (insertBy le x ys) = insert x (set ys)"
  by (induction ys) auto

lemma set_sortBy: "set (sortBy le xs) = set xs"
  by (induction xs) (auto simp: sortBy_def set_insertBy)

lemma distinct_map_insertBy:
  "distinct (map f (insertBy le x ys)) \<longleftrightarrow> f x \<notin> f ` set ys \<and> distinct (map f ys)"
  by (induction ys) (auto simp: set_insertBy)

lemma distinct_map_sortBy: "distinct (map f (sortBy le xs)) \<longleftrightarrow> distinct (map f xs)"
proof (induction xs)
  case Nil
  then show ?case by (simp add: sortBy_def)
next
  case (Cons x xs)
  have "sortBy le (x # xs) = insertBy le x (sortBy le xs)"
    by (simp add: sortBy_def)
  with Cons show ?case
    by (simp add: distinct_map_insertBy set_sortBy)
qed

lemma sorted_wrt_insertBy:
  assumes total: "\<And>a b. le a b \<or> le b a"
    and trans: "\<And>a b c. le a b \<Longrightarrow> le b c \<Longrightarrow> le a c"
  shows "sorted_wrt le ys \<Longrightarrow> sorted_wrt le (insertBy le x ys)"
proof (induction ys)
  case Nil
  then show ?case by simp
next
  case (Cons y ys)
  show ?case
  proof (cases "le x y")
    case True
    with Cons.prems show ?thesis using trans by auto
  next
    case False
    with total have "le y x" by blast
    with Cons False show ?thesis by (auto simp: set_insertBy)
  qed
qed

lemma sorted_wrt_sortBy:
  assumes total: "\<And>a b. le a b \<or> le b a"
    and trans: "\<And>a b c. le a b \<Longrightarrow> le b c \<Longrightarrow> le a c"
  shows "sorted_wrt le (sortBy le xs)"
proof (induction xs)
  case Nil
  then show ?case by (simp add: sortBy_def)
next
  case (Cons x xs)
  have "sortBy le (x # xs) = insertBy le x (sortBy le xs)"
    by (simp add: sortBy_def)
  with Cons show ?case
    using sorted_wrt_insertBy [of le, OF total trans] by simp
qed
















section \<open>Loading the inventory\<close>

lemma orElse_nonempty: "b \<noteq> [] \<Longrightarrow> orElse a b \<noteq> []"
  by (simp add: orElse_def split: option.splits)

lemma tryLoad_cases:
  "tryLoad fetched = Inr data \<longleftrightarrow> fetched = Resolved (OkResponse (Resolved data))"
  by (auto simp: tryLoad_def Let_def split: promise.splits response.splits errorData.splits)

text \<open>
  Claim C8. Mounting the hook requests \<open>/api/php/get_inventory.php\<close> once. Whatever the
  network yields, \<open>isInventoryLoaded\<close> ends up true. When the response is ok and its body
  parses, the inventory is the parsed body and there is no error; in every other case (the
  request fails, the response is not ok, or the body does not parse) the inventory is the
  empty object and a non-empty error message is set.
\<close>

theorem inventory_load_outcomes:
  "snd (useInventory_mount network) = [''/api/php/get_inventory.php'']
   \<and> st_isInventoryLoaded (fst (useInventory_mount network))
   \<and> (\<forall>data. network ''/api/php/get_inventory.php'' = Resolved (OkResponse (Resolved data)) \<longrightarrow>
         st_inventory (fst (useInventory_mount network)) = data \<and>
         st_error (fst (useInventory_mount network)) = None)
   \<and> ((\<forall>data. network ''/api/php/get_inventory.php'' \<noteq> Resolved (OkResponse (Resolved data))) \<longrightarrow>
         st_inventory (fst (useInventory_mount network)) = [] \<and>
         (\<exists>message. st_error (fst (useInventory_mount network)) = Some message \<and> message \<noteq> []))"
proof -
  let ?f = "network ''/api/php/get_inventory.php''"
  have a: "\<forall>data. ?f \<noteq> Resolved (OkResponse (Resolved data)) \<Longrightarrow>
      \<exists>m. tryLoad ?f = Inl m"
    using tryLoad_cases [of ?f] by (cases "tryLoad ?f") auto
  show ?thesis
    apply (intro conjI allI impI)
    subgoal by (simp add: useInventory_mount_def Let_def INVENTORY_API_ENDPOINT_def)
    subgoal by (simp add: useInventory_mount_def fetchInitialInventory_def Let_def)
    subgoal by (simp add: useInventory_mount_def fetchInitialInventory_def Let_def
        INVENTORY_API_ENDPOINT_def tryLoad_def)
    subgoal by (simp add: useInventory_mount_def fetchInitialInventory_def Let_def
        INVENTORY_API_ENDPOINT_def tryLoad_def)
    subgoal using a by (auto simp: useInventory_mount_def fetchInitialInventory_def Let_def
        INVENTORY_API_ENDPOINT_def)
    subgoal using a by (auto simp: useInventory_mount_def fetchInitialInventory_def Let_def
        INVENTORY_API_ENDPOINT_def orElse_nonempty)
    done
qed

theorem inventory_load_outcomes_witness:
  "st_inventory (fst (useInventory_mount failingNetwork)) = []
   \<and> st_error (fst (useInventory_mount failingNetwork)) = Some ''Error del servidor: 500''
   \<and> st_isInventoryLoaded (fst (useInventory_mount failingNetwork))
   \<and> st_inventory (fst (useInventory_mount unparsableNetwork)) = []
   \<and> st_isInventoryLoaded (fst (useInventory_mount unparsableNetwork))
   \<and> st_inventory (fst (useInventory_mount workingNetwork)) = demoInventory
   \<and> st_error (fst (useInventory_mount workingNetwork)) = None
   \<and> st_isInventoryLoaded (fst (useInventory_mount workingNetwork))"
proof -
  have f: "\<forall>data. failingNetwork ''/api/php/get_inventory.php'' \<noteq> Resolved (OkResponse (Resolved data))"
    by (simp add: failingNetwork_def)
  have u: "\<forall>data. unparsableNetwork ''/api/php/get_inventory.php'' \<noteq> Resolved (OkResponse (Resolved data))"
    by (simp add: unparsableNetwork_def)
  have w: "workingNetwork ''/api/php/get_inventory.php'' = Resolved (OkResponse (Resolved demoInventory))"
    by (simp add: workingNetwork_def)
  have e: "st_error (fst (useInventory_mount failingNetwork)) = Some ''Error del servidor: 500''"
    by (simp add: useInventory_mount_def fetchInitialInventory_def tryLoad_def failingNetwork_def
        orElse_def digit_char_def Let_def)
  from inventory_load_outcomes [of failingNetwork] f
  have "st_inventory (fst (useInventory_mount failingNetwork)) = []"
    and "st_isInventoryLoaded (fst (useInventory_mount failingNetwork))"
    by blast+
  moreover from inventory_load_outcomes [of unparsableNetwork] u
  have "st_inventory (fst (useInventory_mount unparsableNetwork)) = []"
    and "st_isInventoryLoaded (fst (useInventory_mount unparsableNetwork))"
    by blast+
  moreover from inventory_load_outcomes [of workingNetwork] w
  have "st_inventory (fst (useInventory_mount workingNetwork)) = demoInventory"
    and "st_error (fst (useInventory_mount workingNetwork)) = None"
    and "st_isInventoryLoaded (fst (useInventory_mount workingNetwork))"
    by blast+
  ultimately show ?thesis using e by simp
qed


section \<open>Recording a sale\<close>











section \<open>Recording a supplier entry\<close>

lemma onSubmit_supplier_denied:
  "currentUser = None \<or> supplier_pointOfSale data \<notin> set (getPointsOfSaleForUser inventory currentUser) \<Longrightarrow>
     requests (onSubmit_supplier inventory currentUser now data) = []"
  by (auto simp: onSubmit_supplier_def Let_def split: option.splits)

lemma onSubmit_supplier_allowed:
  assumes "currentUser = Some u"
    and "supplier_pointOfSale data \<in> set (getPointsOfSaleForUser inventory currentUser)"
  shows "requests (onSubmit_supplier inventory currentUser now data) =
     (if filter qualifies (products data) = [] then []
      else [(''/api/php/add_supplier_entry.php'',
             \<lparr>entry_supplierName = supplierName data,
              entry_pointOfSale = supplier_pointOfSale data,
              entry_userId = user_id u,
              entry_userName = user_name u,
              entry_products =
                map (toPayloadProduct inventory (supplier_pointOfSale data))
                  (filter qualifies (products data)),
              entry_dateTime = now\<rparr>)])"
proof -
  from assms(2) have "getPointsOfSaleForUser inventory currentUser \<noteq> []" by auto
  with assms show ?thesis
    by (simp add: onSubmit_supplier_def Let_def)
qed

text \<open>
  Claim C5. \<open>handleSubmit\<close> sends a request only for values the schema accepts, and it is
  then the request of \<open>onSubmit\<close>. A request of \<open>onSubmit\<close> goes to
  \<open>/api/php/add_supplier_entry.php\<close>, is the only one, needs a current user with access to
  the selected point of sale, and its products are, in order, the form products with a
  non-empty barcode, product name and brand name and a quantity greater than 0. When no
  product qualifies, or there is no user, or the point of sale is not accessible, nothing
  is sent.
\<close>

theorem supplier_request_guarded:
  fixes inventory :: Inventory and currentUser :: "User option" and data :: SupplierFormValues
    and isUrl :: "string \<Rightarrow> bool" and now :: string
  defines "submitted \<equiv> handleSubmit_supplier isUrl inventory currentUser now data"
    and "effects \<equiv> onSubmit_supplier inventory currentUser now data"
    and "access \<equiv> (\<exists>u. currentUser = Some u) \<and>
           supplier_pointOfSale data \<in> set (getPointsOfSaleForUser inventory currentUser)"
  shows
  "(\<forall>url payload. (url, payload) \<in> set (requests submitted) \<longrightarrow>
      supplierFormSchema isUrl data \<and> requests submitted = requests effects)
   \<and> (\<forall>url payload. (url, payload) \<in> set (requests effects) \<longrightarrow>
      url = ''/api/php/add_supplier_entry.php'' \<and> requests effects = [(url, payload)] \<and> access \<and>
      entry_pointOfSale payload = supplier_pointOfSale data \<and>
      entry_products payload \<noteq> [] \<and>
      list_all2 (\<lambda>sent p. pp_barcode sent = sp_barcode p \<and> pp_productName sent = sp_productName p \<and>
                   pp_brandName sent = sp_brandName p \<and> pp_quantity sent = sp_quantity p \<and>
                   pp_purchasePrice sent = sp_purchasePrice p)
        (entry_products payload)
        (filter (\<lambda>p. sp_barcode p \<noteq> [] \<and> sp_productName p \<noteq> [] \<and> sp_brandName p \<noteq> [] \<and>
                      0 < sp_quantity p) (products data)))
   \<and> ((\<forall>p\<in>set (products data). \<not> (sp_barcode p \<noteq> [] \<and> sp_productName p \<noteq> [] \<and>
                                     sp_brandName p \<noteq> [] \<and> 0 < sp_quantity p)) \<or> \<not> access \<longrightarrow>
      requests effects = [] \<and> requests submitted = [])"
proof -
  let ?pos = "supplier_pointOfSale data"
  have q: "qualifies = (\<lambda>p. sp_barcode p \<noteq> [] \<and> sp_productName p \<noteq> [] \<and> sp_brandName p \<noteq> [] \<and>
                      0 < sp_quantity p)"
    by (rule ext) (simp add: qualifies_def)
  have sub: "requests submitted = (if supplierFormSchema isUrl data then requests effects else [])"
    by (simp add: submitted_def effects_def handleSubmit_supplier_def)
  have noaccess: "requests effects = []" if "\<not> access"
  proof -
    from that have "currentUser = None \<or> ?pos \<notin> set (getPointsOfSaleForUser inventory currentUser)"
      by (auto simp: access_def)
    from onSubmit_supplier_denied [OF this] show ?thesis
      by (simp add: effects_def)
  qed
  have part1: "supplierFormSchema isUrl data \<and> requests submitted = requests effects"
    if "(url, payload) \<in> set (requests submitted)" for url payload
    using that sub by (auto split: if_splits)
  have part2: "url = ''/api/php/add_supplier_entry.php'' \<and> requests effects = [(url, payload)] \<and> access \<and>
      entry_pointOfSale payload = supplier_pointOfSale data \<and>
      entry_products payload \<noteq> [] \<and>
      list_all2 (\<lambda>sent p. pp_barcode sent = sp_barcode p \<and> pp_productName sent = sp_productName p \<and>
                   pp_brandName sent = sp_brandName p \<and> pp_quantity sent = sp_quantity p \<and>
                   pp_purchasePrice sent = sp_purchasePrice p)
        (entry_products payload)
        (filter (\<lambda>p. sp_barcode p \<noteq> [] \<and> sp_productName p \<noteq> [] \<and> sp_brandName p \<noteq> [] \<and>
                      0 < sp_quantity p) (products data))"
    if req: "(url, payload) \<in> set (requests effects)" for url payload
  proof -
    from req noaccess have acc: access by fastforce
    then obtain u where u: "currentUser = Some u"
      and pos: "?pos \<in> set (getPointsOfSaleForUser inventory currentUser)"
      by (auto simp: access_def)
    note r = onSubmit_supplier_allowed [OF u pos, of now, folded effects_def]
    from req r have ne: "filter qualifies (products data) \<noteq> []"
      by (auto split: if_splits)
    from req r ne have url: "url = ''/api/php/add_supplier_entry.php''"
      and pl: "payload = \<lparr>entry_supplierName = supplierName data,
              entry_pointOfSale = ?pos,
              entry_userId = user_id u,
              entry_userName = user_name u,
              entry_products = map (toPayloadProduct inventory ?pos) (filter qualifies (products data)),
              entry_dateTime = now\<rparr>"
      by simp_all
    have prods: "entry_products payload =
        map (toPayloadProduct inventory ?pos) (filter qualifies (products data))"
      by (simp add: pl)
    have "list_all2 (\<lambda>sent p. pp_barcode sent = sp_barcode p \<and> pp_productName sent = sp_productName p \<and>
                   pp_brandName sent = sp_brandName p \<and> pp_quantity sent = sp_quantity p \<and>
                   pp_purchasePrice sent = sp_purchasePrice p)
        (entry_products payload) (filter qualifies (products data))"
      unfolding prods by (simp add: list_all2_map1 list_all2_same toPayloadProduct_def)
    then show ?thesis
      using url r ne pl acc prods unfolding q by simp
  qed
  have part3: "requests effects = [] \<and> requests submitted = []"
    if h: "(\<forall>p\<in>set (products data). \<not> (sp_barcode p \<noteq> [] \<and> sp_productName p \<noteq> [] \<and>
                                     sp_brandName p \<noteq> [] \<and> 0 < sp_quantity p)) \<or> \<not> access"
  proof (cases access)
    case False
    with noaccess sub show ?thesis by simp
  next
    case True
    then obtain u where u: "currentUser = Some u"
      and pos: "?pos \<in> set (getPointsOfSaleForUser inventory currentUser)"
      by (auto simp: access_def)
    from True h have "filter qualifies (products data) = []"
      unfolding q filter_empty_conv by blast
    with onSubmit_supplier_allowed [OF u pos, of now, folded effects_def] sub
    show ?thesis by simp
  qed
  show ?thesis
    apply (intro conjI)
    subgoal by (intro allI impI) (rule part1)
    subgoal by (intro allI impI) (rule part2)
    subgoal by (intro impI) (rule part3)
    done
qed

text \<open>
  The claim on the sample data: an entry with one product without brand among three, an
  entry for a point of sale the user has no access to, and an entry without products
  that qualify.
\<close>

theorem supplier_request_guarded_witness:
  "(\<exists>payload. requests (onSubmit_supplier demoInventory (Some demoUser) ''2024-05-01T10:00:00.000Z''
                 (demoEntry ''Centro'' [demoSupplierProduct ''444'' ''Gel'' ''Nivea'' 6,
                                        demoSupplierProduct ''555'' ''Cera'' [] 2,
                                        demoSupplierProduct ''111'' ''Champu'' ''Loreal'' 1])) =
                 [(''/api/php/add_supplier_entry.php'', payload)] \<and>
               map pp_barcode (entry_products payload) = [''444'', ''111''])
   \<and> supplierFormSchema (\<lambda>u. True) (demoEntry ''Centro'' [demoSupplierProduct ''444'' ''Gel'' ''Nivea'' 6])
   \<and> requests (handleSubmit_supplier (\<lambda>u. True) demoInventory (Some demoUser) ''2024-05-01T10:00:00.000Z''
                 (demoEntry ''Centro'' [demoSupplierProduct ''444'' ''Gel'' ''Nivea'' 6])) =
       requests (onSubmit_supplier demoInventory (Some demoUser) ''2024-05-01T10:00:00.000Z''
                 (demoEntry ''Centro'' [demoSupplierProduct ''444'' ''Gel'' ''Nivea'' 6]))
   \<and> requests (onSubmit_supplier demoInventory (Some demoUser) ''2024-05-01T10:00:00.000Z''
                 (demoEntry ''Norte'' [demoSupplierProduct ''444'' ''Gel'' ''Nivea'' 6])) = []
   \<and> requests (onSubmit_supplier demoInventory (Some demoUser) ''2024-05-01T10:00:00.000Z''
                 (demoEntry ''Centro'' [demoSupplierProduct ''555'' ''Cera'' [] 2])) = []"
proof -
  let ?now = "''2024-05-01T10:00:00.000Z''"
  let ?three = "demoEntry ''Centro'' [demoSupplierProduct ''444'' ''Gel'' ''Nivea'' 6,
                                        demoSupplierProduct ''555'' ''Cera'' [] 2,
                                        demoSupplierProduct ''111'' ''Champu'' ''Loreal'' 1]"
  let ?one = "demoEntry ''Centro'' [demoSupplierProduct ''444'' ''Gel'' ''Nivea'' 6]"
  let ?norte = "demoEntry ''Norte'' [demoSupplierProduct ''444'' ''Gel'' ''Nivea'' 6]"
  let ?nobrand = "demoEntry ''Centro'' [demoSupplierProduct ''555'' ''Cera'' [] 2]"
  note inst = supplier_request_guarded [of "\<lambda>u. True" demoInventory "Some demoUser" ?now]
  have "requests (onSubmit_supplier demoInventory (Some demoUser) ?now ?three) \<noteq> []"
    by code_simp
  then obtain url payload
    where sent: "(url, payload) \<in> set (requests (onSubmit_supplier demoInventory (Some demoUser) ?now ?three))"
    by (cases "requests (onSubmit_supplier demoInventory (Some demoUser) ?now ?three)") auto
  have kept: "filter (\<lambda>p. sp_barcode p \<noteq> [] \<and> sp_productName p \<noteq> [] \<and> sp_brandName p \<noteq> [] \<and>
                      0 < sp_quantity p) (products ?three) =
      [demoSupplierProduct ''444'' ''Gel'' ''Nivea'' 6, demoSupplierProduct ''111'' ''Champu'' ''Loreal'' 1]"
    by (simp add: demoEntry_def demoSupplierProduct_def)
  from inst [of ?three] sent
  have r: "requests (onSubmit_supplier demoInventory (Some demoUser) ?now ?three) =
          [(''/api/php/add_supplier_entry.php'', payload)]"
    and l: "list_all2 (\<lambda>sent p. pp_barcode sent = sp_barcode p \<and> pp_productName sent = sp_productName p \<and>
                   pp_brandName sent = sp_brandName p \<and> pp_quantity sent = sp_quantity p \<and>
                   pp_purchasePrice sent = sp_purchasePrice p)
        (entry_products payload)
        (filter (\<lambda>p. sp_barcode p \<noteq> [] \<and> sp_productName p \<noteq> [] \<and> sp_brandName p \<noteq> [] \<and>
                      0 < sp_quantity p) (products ?three))"
    by blast+
  from l have "map pp_barcode (entry_products payload) = [''444'', ''111'']"
    unfolding kept by (auto simp: list_all2_Cons2 demoSupplierProduct_def)
  with r have one: "\<exists>payload. requests (onSubmit_supplier demoInventory (Some demoUser) ?now ?three) =
                 [(''/api/php/add_supplier_entry.php'', payload)] \<and>
               map pp_barcode (entry_products payload) = [''444'', ''111'']"
    by (intro exI [of _ payload] conjI)
  have "requests (handleSubmit_supplier (\<lambda>u. True) demoInventory (Some demoUser) ?now ?one) \<noteq> []"
    by code_simp
  then obtain url' payload'
    where "(url', payload') \<in> set (requests (handleSubmit_supplier (\<lambda>u. True) demoInventory
                                            (Some demoUser) ?now ?one))"
    by (cases "requests (handleSubmit_supplier (\<lambda>u. True) demoInventory (Some demoUser) ?now ?one)") auto
  from inst [of ?one, THEN conjunct1, rule_format, OF this]
  have two: "supplierFormSchema (\<lambda>u. True) ?one \<and>
      requests (handleSubmit_supplier (\<lambda>u. True) demoInventory (Some demoUser) ?now ?one) =
      requests (onSubmit_supplier demoInventory (Some demoUser) ?now ?one)" .
  have "''Norte'' \<notin> set (getPointsOfSaleForUser demoInventory (Some demoUser))"
    by code_simp
  then have "\<not> ((\<exists>u. Some demoUser = Some u) \<and>
      supplier_pointOfSale ?norte \<in> set (getPointsOfSaleForUser demoInventory (Some demoUser)))"
    by (simp add: demoEntry_def)
  then have "(\<forall>p\<in>set (products ?norte). \<not> (sp_barcode p \<noteq> [] \<and> sp_productName p \<noteq> [] \<and>
                                     sp_brandName p \<noteq> [] \<and> 0 < sp_quantity p)) \<or>
      \<not> ((\<exists>u. Some demoUser = Some u) \<and>
      supplier_pointOfSale ?norte \<in> set (getPointsOfSaleForUser demoInventory (Some demoUser)))"
    by (rule disjI2)
  from inst [of ?norte, THEN conjunct2, THEN conjunct2, rule_format, OF this]
  have three: "requests (onSubmit_supplier demoInventory (Some demoUser) ?now ?norte) = []"
    by (rule conjunct1)
  have "\<forall>p\<in>set (products ?nobrand). \<not> (sp_barcode p \<noteq> [] \<and> sp_productName p \<noteq> [] \<and>
                                     sp_brandName p \<noteq> [] \<and> 0 < sp_quantity p)"
    by (simp add: demoEntry_def demoSupplierProduct_def)
  then have "(\<forall>p\<in>set (products ?nobrand). \<not> (sp_barcode p \<noteq> [] \<and> sp_productName p \<noteq> [] \<and>
                                     sp_brandName p \<noteq> [] \<and> 0 < sp_quantity p)) \<or>
      \<not> ((\<exists>u. Some demoUser = Some u) \<and>
      supplier_pointOfSale ?nobrand \<in> set (getPointsOfSaleForUser demoInventory (Some demoUser)))"
    by (rule disjI1)
  from inst [of ?nobrand, THEN conjunct2, THEN conjunct2, rule_format, OF this]
  have four: "requests (onSubmit_supplier demoInventory (Some demoUser) ?now ?nobrand) = []"
    by (rule conjunct1)
  from one two three four show ?thesis by (intro conjI) (erule conjunct1 conjunct2 | assumption)+
qed


section \<open>The inventory context value\<close>

text \<open>
  Claim C3. Whatever the state of the hook, a consumer of \<open>useInventoryContext\<close> gets a
  context value that has the properties \<open>updateProductQuantity\<close>, \<open>addProduct\<close> and
  \<open>updateProductPrice\<close>; the hook's object has none of them, so each is \<open>undefined\<close> and
  calling it throws a \<open>TypeError\<close>: no call of them ever enters a function or returns.
  The functions the hook does return are callable.
\<close>

theorem removed_functions_undefined:
  "(\<exists>ctx. consumerContext s = Inr ctx
      \<and> map_of ctx ''updateProductQuantity'' = Some Undefined
      \<and> map_of ctx ''addProduct'' = Some Undefined
      \<and> map_of ctx ''updateProductPrice'' = Some Undefined
      \<and> invoke (getProp ctx ''updateProductQuantity'') = Inl TypeError
      \<and> invoke (getProp ctx ''addProduct'') = Inl TypeError
      \<and> invoke (getProp ctx ''updateProductPrice'') = Inl TypeError
      \<and> invoke (getProp ctx ''getProductDetailsInPos'') = Inr ''getProductDetailsInPos''
      \<and> invoke (getProp ctx ''getAllPointsOfSale'') = Inr ''getPointsOfSale'')
   \<and> map_of (useInventory s) ''updateProductQuantity'' = None
   \<and> map_of (useInventory s) ''addProduct'' = None
   \<and> map_of (useInventory s) ''updateProductPrice'' = None"
  by (simp add: consumerContext_def useInventoryContext_def contextValue_def useInventory_def
      getProp_def invoke_def)


section \<open>The supplier-entry endpoint\<close>














section \<open>Product sales chart\<close>

lemma map_of_replace:
  "map_of (map (\<lambda>(k', v'). if k' = k then (k', v) else (k', v')) m) x =
     (if x = k then map_option (\<lambda>_. v) (map_of m x) else map_of m x)"
  by (induction m) auto

lemma fst_replace:
  "map fst (map (\<lambda>(k', v'). if k' = k then (k', v) else (k', v')) m) = map fst m"
  by (induction m) auto

lemma map_of_mapSet: "map_of (mapSet k v m) = (map_of m)(k \<mapsto> v)"
proof (cases "k \<in> set (map fst m)")
  case True
  then obtain w where "map_of m k = Some w"
    by (cases "map_of m k") (auto simp: map_of_eq_None_iff)
  with True show ?thesis
    by (auto simp: mapSet_def map_of_replace)
next
  case False
  then have "map_of m k = None"
    by (simp add: map_of_eq_None_iff)
  with False show ?thesis
    by (auto simp: mapSet_def map_add_def fun_eq_iff split: option.splits)
qed

lemma keys_mapSet:
  "map fst (mapSet k v m) = (if k \<in> set (map fst m) then map fst m else map fst m @ [k])"
  by (cases "k \<in> set (map fst m)")
    (simp_all only: mapSet_def if_True if_False fst_replace map_append list.map fst_conv)

lemma distinct_mapSet: "distinct (map fst m) \<Longrightarrow> distinct (map fst (mapSet k v m))"
  by (simp add: keys_mapSet)

lemma valueAt_mapSet: "valueAt (mapSet k v m) k' = (if k' = k then v else valueAt m k')"
  by (simp add: valueAt_def map_of_mapSet)

lemma addItem_map_of:
  "map_of (addItem b k m item) =
     (if sold_barcode item = b then (map_of m)(k \<mapsto> valueAt m k + sold_quantity item) else map_of m)"
  by (simp add: addItem_def map_of_mapSet valueAt_def)

lemma addItem_distinct: "distinct (map fst m) \<Longrightarrow> distinct (map fst (addItem b k m item))"
  by (simp add: addItem_def distinct_mapSet)

lemma items_fold_map_of:
  "map_of (foldl (addItem b k) m its) =
     (if \<exists>item\<in>set its. sold_barcode item = b
      then (map_of m)(k \<mapsto> valueAt m k +
             (\<Sum>item\<leftarrow>filter (\<lambda>item. sold_barcode item = b) its. sold_quantity item))
      else map_of m)"
proof (induction its arbitrary: m)
  case Nil
  then show ?case by simp
next
  case (Cons x xs)
  show ?case
  proof (cases "sold_barcode x = b")
    case True
    have v: "valueAt (addItem b k m x) k = valueAt m k + sold_quantity x"
      using True by (simp add: valueAt_def addItem_map_of)
    show ?thesis
      using True by (auto simp: Cons.IH v addItem_map_of add.assoc fun_eq_iff)
  next
    case False
    then have "addItem b k m x = m" by (simp add: addItem_def)
    with False show ?thesis by (simp add: Cons.IH)
  qed
qed

lemma items_fold_distinct:
  "distinct (map fst m) \<Longrightarrow> distinct (map fst (foldl (addItem b k) m its))"
  by (induction its arbitrary: m) (simp_all add: addItem_distinct)

lemma addSale_map_of:
  "map_of (addSale cal b s e m sale) k =
     (if onLabel cal s e k sale \<and> hasItem b sale then Some (valueAt m k + soldOf b sale)
      else map_of m k)"
  by (auto simp: addSale_def onLabel_def hasItem_def soldOf_def items_fold_map_of
      split: option.splits)

lemma addSale_valueAt:
  "valueAt (addSale cal b s e m sale) k =
     valueAt m k + (if onLabel cal s e k sale then soldOf b sale else 0)"
proof (cases "hasItem b sale")
  case True
  then show ?thesis by (simp add: valueAt_def addSale_map_of)
next
  case False
  then have "filter (\<lambda>item. sold_barcode item = b) (rec_items sale) = []"
    by (auto simp: hasItem_def filter_empty_conv)
  then have "soldOf b sale = 0" by (simp add: soldOf_def)
  with False show ?thesis by (simp add: valueAt_def addSale_map_of)
qed

lemma addSale_distinct: "distinct (map fst m) \<Longrightarrow> distinct (map fst (addSale cal b s e m sale))"
  by (simp add: addSale_def items_fold_distinct split: option.splits)

lemma sales_fold_valueAt:
  "valueAt (foldl (addSale cal b s e) m sales) k =
     valueAt m k + (\<Sum>sale\<leftarrow>filter (onLabel cal s e k) sales. soldOf b sale)"
  by (induction sales arbitrary: m) (simp_all add: addSale_valueAt)

lemma sales_fold_dom:
  "map_of (foldl (addSale cal b s e) m sales) k \<noteq> None \<longleftrightarrow>
     map_of m k \<noteq> None \<or> (\<exists>sale\<in>set sales. onLabel cal s e k sale \<and> hasItem b sale)"
  by (induction sales arbitrary: m) (auto simp: addSale_map_of)

lemma sales_fold_distinct:
  "distinct (map fst m) \<Longrightarrow> distinct (map fst (foldl (addSale cal b s e) m sales))"
  by (induction sales arbitrary: m) (simp_all add: addSale_distinct)

lemma emptyMap_map_of:
  "map_of (foldl (\<lambda>m day. mapSet (f day) (0::number) m) m0 days) k =
     (if k \<in> f ` set days then Some 0 else map_of m0 k)"
  by (induction days arbitrary: m0) (auto simp: map_of_mapSet)

lemma emptyMap_distinct:
  "distinct (map fst m0) \<Longrightarrow> distinct (map fst (foldl (\<lambda>m day. mapSet (f day) (0::number) m) m0 days))"
  by (induction days arbitrary: m0) (simp_all add: distinct_mapSet)

declare show_nat.simps [simp del]

lemma show_nat_small: "n < 10 \<Longrightarrow> show_nat n = [digit_char n]"
  by (subst show_nat.simps) simp

lemma show_nat_large: "\<not> n < 10 \<Longrightarrow> show_nat n = show_nat (n div 10) @ [digit_char (n mod 10)]"
  by (subst show_nat.simps) simp

lemma digit_value_digit_char: "d < 10 \<Longrightarrow> digit_value (digit_char d) = d"
proof -
  assume "d < 10"
  then have "d \<in> {0, 1, 2, 3, 4, 5, 6, 7, 8, 9}" by auto
  then show ?thesis
    by (auto simp: digit_char_def digit_value_def)
qed

lemma digit_char_is_digit: "d < 10 \<Longrightarrow> digit_char d \<in> set ''0123456789''"
  unfolding digit_char_def by (rule nth_mem) simp

lemma Number_snoc: "Number (s @ [c]) = 10 * Number s + digit_value c"
  by (simp add: Number_def)

lemma Number_show_nat: "Number (show_nat n) = n"
proof (induction n rule: show_nat.induct)
  case (1 n)
  show ?case
  proof (cases "n < 10")
    case True
    then have "show_nat n = [digit_char n]" by (rule show_nat_small)
    with True show ?thesis
      by (simp add: Number_def digit_value_digit_char)
  next
    case False
    then have "show_nat n = show_nat (n div 10) @ [digit_char (n mod 10)]" by (rule show_nat_large)
    with False "1.IH" show ?thesis
      by (simp add: Number_snoc digit_value_digit_char)
  qed
qed

lemma show_nat_digits: "set (show_nat n) \<subseteq> set ''0123456789''"
proof (induction n rule: show_nat.induct)
  case (1 n)
  show ?case
  proof (cases "n < 10")
    case True
    then have "show_nat n = [digit_char n]" by (rule show_nat_small)
    with True digit_char_is_digit [of n] show ?thesis by simp
  next
    case False
    then have "show_nat n = show_nat (n div 10) @ [digit_char (n mod 10)]" by (rule show_nat_large)
    with False "1.IH" digit_char_is_digit [of "n mod 10"] show ?thesis by simp
  qed
qed

lemma Number_pad2: "Number (pad2 n) = n"
proof -
  have "Number (CHR ''0'' # s) = Number s" for s
    by (simp add: Number_def digit_value_def)
  then show ?thesis
    by (simp add: pad2_def Number_show_nat)
qed

lemma pad2_no_slash: "CHR ''/'' \<notin> set (pad2 n)"
proof -
  have "CHR ''/'' \<notin> set ''0123456789''" by simp
  with show_nat_digits [of n] have "CHR ''/'' \<notin> set (show_nat n)" by blast
  then show ?thesis by (simp add: pad2_def)
qed

lemma split_str_not_Nil: "split_str sep s \<noteq> []"
  by (induction s) (auto split: list.splits)

lemma split_str_no_sep: "sep \<notin> set s \<Longrightarrow> split_str sep s = [s]"
  by (induction s) auto

lemma split_str_at_sep: "sep \<notin> set a \<Longrightarrow> split_str sep (a @ sep # b) = a # split_str sep b"
  by (induction a) auto

lemma parseLabel_format:
  "parseLabel (format_ddMM cal t) = (int (dayOfMonth cal t), int (monthOfYear cal t))"
proof -
  have "split_str CHR ''/'' (format_ddMM cal t) = [pad2 (dayOfMonth cal t), pad2 (monthOfYear cal t)]"
    using split_str_at_sep [OF pad2_no_slash, of "dayOfMonth cal t" "pad2 (monthOfYear cal t)"]
      split_str_no_sep [OF pad2_no_slash, of "monthOfYear cal t"]
    by (simp add: format_ddMM_def)
  then show ?thesis
    by (simp add: parseLabel_def Number_pad2)
qed

lemma compareLabels_le:
  "compareLabels a b \<le> 0 \<longleftrightarrow>
     snd (parseLabel (cp_date a)) < snd (parseLabel (cp_date b)) \<or>
     snd (parseLabel (cp_date a)) = snd (parseLabel (cp_date b)) \<and>
     fst (parseLabel (cp_date a)) \<le> fst (parseLabel (cp_date b))"
  by (auto simp: compareLabels_def Let_def split: prod.splits)

lemma chart_sorted:
  "sorted_wrt (\<lambda>a b. compareLabels a b \<le> 0) (sortBy (\<lambda>a b. compareLabels a b \<le> 0) xs)"
  by (rule sorted_wrt_sortBy) (auto simp: compareLabels_le)

lemma chart_unfold:
  assumes "selected \<noteq> []" "range_from dateRange = Some startDate" "isClient"
    "allSalesData @ allWholesaleSalesData \<noteq> []"
  shows "productSalesChart cal (Some selected) (Some dateRange) isClient allSalesData allWholesaleSalesData =
     sortBy (\<lambda>a b. compareLabels a b \<le> 0)
       (map (\<lambda>(date, sales). \<lparr>cp_date = date, cp_sales = sales\<rparr>)
          (foldl (addSale cal selected startDate
                    (case range_to dateRange of None \<Rightarrow> startDate | Some t \<Rightarrow> t))
             (foldl (\<lambda>m day. mapSet (format_ddMM cal day) 0 m) []
                (eachDayOfInterval cal startDate
                   (case range_to dateRange of None \<Rightarrow> startDate | Some t \<Rightarrow> t)))
             (allSalesData @ allWholesaleSalesData)))"
  using assms by (auto simp: productSalesChart_def Let_def)

lemma chart_empty:
  "selected = [] \<or> range_from dateRange = None \<or> \<not> isClient \<or> allSalesData @ allWholesaleSalesData = [] \<Longrightarrow>
     productSalesChart cal (Some selected) (Some dateRange) isClient allSalesData allWholesaleSalesData = []"
  by (auto simp: productSalesChart_def Let_def split: option.splits)

text \<open>
  Claim C1, amended. When a non-empty barcode is selected, the range has a start, the page
  runs in the browser and the regular and wholesale histories are not both empty, the chart
  has exactly one point for each \<open>dd/MM\<close> label of a day of the range or of a sale of the
  product within the range. The value of a point is the sum of \<open>item.quantity\<close> over the
  items with the selected barcode in the sale records (regular and wholesale together)
  whose \<open>dateTime\<close> is valid, lies within the range and has that label: 0 when there is
  none. The points are sorted by month, then by day, as read back from the labels, which
  give the day and the month that were printed. In the other cases the chart is empty.
\<close>

theorem product_chart_sums:
  fixes cal :: Calendar and selected :: string and dateRange :: DateRange and startDate :: int
    and isClient :: bool and allSalesData :: "SaleRecord list" and allWholesaleSalesData :: "SaleRecord list"
  defines "combined \<equiv> allSalesData @ allWholesaleSalesData"
    and "endDate \<equiv> (case range_to dateRange of None \<Rightarrow> startDate | Some t \<Rightarrow> t)"
    and "chart \<equiv> productSalesChart cal (Some selected) (Some dateRange) isClient
                   allSalesData allWholesaleSalesData"
  shows
  "(selected \<noteq> [] \<and> range_from dateRange = Some startDate \<and> isClient \<and> combined \<noteq> [] \<longrightarrow>
      distinct (map cp_date chart) \<and>
      set (map cp_date chart) =
        format_ddMM cal ` set (eachDayOfInterval cal startDate endDate) \<union>
        {format_ddMM cal t |t sale. sale \<in> set combined \<and> rec_dateTime sale = Some t \<and>
           startDate \<le> t \<and> t \<le> endDate \<and> (\<exists>item\<in>set (rec_items sale). sold_barcode item = selected)} \<and>
      (\<forall>point\<in>set chart.
         cp_sales point =
           (\<Sum>sale\<leftarrow>filter (\<lambda>sale. case rec_dateTime sale of
                                    None \<Rightarrow> False
                                  | Some t \<Rightarrow> startDate \<le> t \<and> t \<le> endDate \<and>
                                      format_ddMM cal t = cp_date point) combined.
              \<Sum>item\<leftarrow>filter (\<lambda>item. sold_barcode item = selected) (rec_items sale).
                sold_quantity item)) \<and>
      sorted_wrt (\<lambda>p q. snd (parseLabel (cp_date p)) < snd (parseLabel (cp_date q)) \<or>
                    snd (parseLabel (cp_date p)) = snd (parseLabel (cp_date q)) \<and>
                    fst (parseLabel (cp_date p)) \<le> fst (parseLabel (cp_date q))) chart)
   \<and> (\<forall>t. parseLabel (format_ddMM cal t) = (int (dayOfMonth cal t), int (monthOfYear cal t)))
   \<and> (selected = [] \<or> range_from dateRange = None \<or> \<not> isClient \<or> combined = [] \<longrightarrow> chart = [])"
proof (intro conjI impI allI)
  show "parseLabel (format_ddMM cal t) = (int (dayOfMonth cal t), int (monthOfYear cal t))" for t
    by (rule parseLabel_format)
next
  assume "selected = [] \<or> range_from dateRange = None \<or> \<not> isClient \<or> combined = []"
  then show "chart = []"
    unfolding chart_def combined_def by (rule chart_empty)
next
  assume guard: "selected \<noteq> [] \<and> range_from dateRange = Some startDate \<and> isClient \<and> combined \<noteq> []"
  define emptyMap where
    "emptyMap = foldl (\<lambda>m day. mapSet (format_ddMM cal day) (0::number) m) []
                  (eachDayOfInterval cal startDate endDate)"
  define chartDataMap where
    "chartDataMap = foldl (addSale cal selected startDate endDate) emptyMap combined"
  let ?mk = "\<lambda>(date, sales). \<lparr>cp_date = date, cp_sales = sales\<rparr>"
  have chart: "chart = sortBy (\<lambda>a b. compareLabels a b \<le> 0) (map ?mk chartDataMap)"
    using guard chart_unfold [of selected dateRange startDate isClient allSalesData allWholesaleSalesData cal]
    by (simp add: chart_def chartDataMap_def emptyMap_def endDate_def combined_def)
  have dates: "map cp_date (map ?mk chartDataMap) = map fst chartDataMap"
    by (induction chartDataMap) auto
  have dist: "distinct (map fst chartDataMap)"
    unfolding chartDataMap_def emptyMap_def
    by (intro sales_fold_distinct emptyMap_distinct) simp
  have empty0: "valueAt emptyMap k = 0" for k
    by (simp add: valueAt_def emptyMap_def emptyMap_map_of)
  have total: "valueAt chartDataMap k =
      (\<Sum>sale\<leftarrow>filter (onLabel cal startDate endDate k) combined. soldOf selected sale)" for k
    by (simp add: chartDataMap_def sales_fold_valueAt empty0)
  have dom: "k \<in> set (map fst chartDataMap) \<longleftrightarrow>
      k \<in> format_ddMM cal ` set (eachDayOfInterval cal startDate endDate) \<or>
      (\<exists>sale\<in>set combined. onLabel cal startDate endDate k sale \<and> hasItem selected sale)" for k
  proof -
    have "k \<in> set (map fst chartDataMap) \<longleftrightarrow> map_of chartDataMap k \<noteq> None"
      by (simp add: map_of_eq_None_iff)
    also have "\<dots> \<longleftrightarrow> map_of emptyMap k \<noteq> None \<or>
        (\<exists>sale\<in>set combined. onLabel cal startDate endDate k sale \<and> hasItem selected sale)"
      unfolding chartDataMap_def by (rule sales_fold_dom)
    also have "map_of emptyMap k \<noteq> None \<longleftrightarrow>
        k \<in> format_ddMM cal ` set (eachDayOfInterval cal startDate endDate)"
      by (simp add: emptyMap_def emptyMap_map_of)
    finally show ?thesis .
  qed
  show "distinct (map cp_date chart)"
    using dist by (simp add: chart distinct_map_sortBy dates del: map_map)
  show "set (map cp_date chart) =
        format_ddMM cal ` set (eachDayOfInterval cal startDate endDate) \<union>
        {format_ddMM cal t |t sale. sale \<in> set combined \<and> rec_dateTime sale = Some t \<and>
           startDate \<le> t \<and> t \<le> endDate \<and> (\<exists>item\<in>set (rec_items sale). sold_barcode item = selected)}"
  proof -
    have "set (map cp_date chart) = set (map fst chartDataMap)"
      unfolding chart set_map set_sortBy by (simp only: flip: set_map dates)
    also have "\<dots> = format_ddMM cal ` set (eachDayOfInterval cal startDate endDate) \<union>
        {k. \<exists>sale\<in>set combined. onLabel cal startDate endDate k sale \<and> hasItem selected sale}"
      using dom by blast
    also have "{k. \<exists>sale\<in>set combined. onLabel cal startDate endDate k sale \<and> hasItem selected sale} =
        {format_ddMM cal t |t sale. sale \<in> set combined \<and> rec_dateTime sale = Some t \<and>
           startDate \<le> t \<and> t \<le> endDate \<and> (\<exists>item\<in>set (rec_items sale). sold_barcode item = selected)}"
    proof (intro set_eqI iffI)
      fix k
      assume "k \<in> {k. \<exists>sale\<in>set combined. onLabel cal startDate endDate k sale \<and> hasItem selected sale}"
      then obtain sale t where "sale \<in> set combined" "rec_dateTime sale = Some t" "startDate \<le> t"
        "t \<le> endDate" "format_ddMM cal t = k" "\<exists>item\<in>set (rec_items sale). sold_barcode item = selected"
        by (auto simp: onLabel_def hasItem_def split: option.splits)
      then show "k \<in> {format_ddMM cal t |t sale. sale \<in> set combined \<and> rec_dateTime sale = Some t \<and>
           startDate \<le> t \<and> t \<le> endDate \<and> (\<exists>item\<in>set (rec_items sale). sold_barcode item = selected)}"
        by blast
    next
      fix k
      assume "k \<in> {format_ddMM cal t |t sale. sale \<in> set combined \<and> rec_dateTime sale = Some t \<and>
           startDate \<le> t \<and> t \<le> endDate \<and> (\<exists>item\<in>set (rec_items sale). sold_barcode item = selected)}"
      then obtain sale t where "sale \<in> set combined" "rec_dateTime sale = Some t" "startDate \<le> t"
        "t \<le> endDate" "format_ddMM cal t = k" "\<exists>item\<in>set (rec_items sale). sold_barcode item = selected"
        by blast
      then have "onLabel cal startDate endDate k sale \<and> hasItem selected sale"
        by (simp add: onLabel_def hasItem_def)
      with \<open>sale \<in> set combined\<close>
      show "k \<in> {k. \<exists>sale\<in>set combined. onLabel cal startDate endDate k sale \<and> hasItem selected sale}"
        by blast
    qed
    finally show ?thesis .
  qed
  show "\<forall>point\<in>set chart.
         cp_sales point =
           (\<Sum>sale\<leftarrow>filter (\<lambda>sale. case rec_dateTime sale of
                                    None \<Rightarrow> False
                                  | Some t \<Rightarrow> startDate \<le> t \<and> t \<le> endDate \<and>
                                      format_ddMM cal t = cp_date point) combined.
              \<Sum>item\<leftarrow>filter (\<lambda>item. sold_barcode item = selected) (rec_items sale).
                sold_quantity item)"
  proof
    fix point
    assume "point \<in> set chart"
    then obtain k v where kv: "(k, v) \<in> set chartDataMap" "point = \<lparr>cp_date = k, cp_sales = v\<rparr>"
      by (auto simp: chart set_sortBy)
    with dist have "map_of chartDataMap k = Some v" by simp
    then have "v = valueAt chartDataMap k" by (simp add: valueAt_def)
    with total [of k]
    have v: "v = (\<Sum>sale\<leftarrow>filter (onLabel cal startDate endDate k) combined. soldOf selected sale)"
      by simp
    have pk: "cp_date point = k" and pv: "cp_sales point = v"
      using kv(2) by simp_all
    show "cp_sales point =
           (\<Sum>sale\<leftarrow>filter (\<lambda>sale. case rec_dateTime sale of
                                    None \<Rightarrow> False
                                  | Some t \<Rightarrow> startDate \<le> t \<and> t \<le> endDate \<and>
                                      format_ddMM cal t = cp_date point) combined.
              \<Sum>item\<leftarrow>filter (\<lambda>item. sold_barcode item = selected) (rec_items sale).
                sold_quantity item)"
      using v by (simp only: pk pv onLabel_def [abs_def] soldOf_def [abs_def])
  qed
  show "sorted_wrt (\<lambda>p q. snd (parseLabel (cp_date p)) < snd (parseLabel (cp_date q)) \<or>
                    snd (parseLabel (cp_date p)) = snd (parseLabel (cp_date q)) \<and>
                    fst (parseLabel (cp_date p)) \<le> fst (parseLabel (cp_date q))) chart"
    using chart_sorted [of "map ?mk chartDataMap"]
    by (simp only: chart compareLabels_le)
qed

text \<open>
  Claim C1 as stated fails when both histories are empty: the range below has three days,
  a product is selected, and the chart is empty instead of holding the three days with
  value 0.
\<close>

theorem product_chart_sums_counterexample:
  "eachDayOfInterval demoCalendar 0 259199999 = [0, 86400000, 172800000]
   \<and> productSalesChart demoCalendar (Some ''111'') (Some demoRange) True [] [] = []"
  by code_simp

text \<open>
  The amended claim on the sample sales: two sales of the second day (one regular, one
  wholesale), one with an invalid date and one after the range.
\<close>

theorem product_chart_sums_witness:
  "productSalesChart demoCalendar (Some ''111'') (Some demoRange) True
     [demoSaleRecord ''s1'' (Some 90000000) 2, demoSaleRecord ''s2'' None 5]
     [demoSaleRecord ''w1'' (Some 100000000) 3, demoSaleRecord ''w2'' (Some 300000000) 7] =
     [\<lparr>cp_date = ''01/01'', cp_sales = 0\<rparr>, \<lparr>cp_date = ''02/01'', cp_sales = 5\<rparr>,
      \<lparr>cp_date = ''03/01'', cp_sales = 0\<rparr>]
   \<and> distinct (map cp_date (productSalesChart demoCalendar (Some ''111'') (Some demoRange) True
        [demoSaleRecord ''s1'' (Some 90000000) 2, demoSaleRecord ''s2'' None 5]
        [demoSaleRecord ''w1'' (Some 100000000) 3, demoSaleRecord ''w2'' (Some 300000000) 7]))
   \<and> parseLabel (format_ddMM demoCalendar 90000000) = (2, 1)
   \<and> productSalesChart demoCalendar (Some ''111'') (Some demoRange) False
        [demoSaleRecord ''s1'' (Some 90000000) 2] [] = []"
proof -
  let ?regular = "[demoSaleRecord ''s1'' (Some 90000000) 2, demoSaleRecord ''s2'' None 5]"
  let ?wholesale = "[demoSaleRecord ''w1'' (Some 100000000) 3, demoSaleRecord ''w2'' (Some 300000000) 7]"
  have a: "productSalesChart demoCalendar (Some ''111'') (Some demoRange) True ?regular ?wholesale =
     [\<lparr>cp_date = ''01/01'', cp_sales = 0\<rparr>, \<lparr>cp_date = ''02/01'', cp_sales = 5\<rparr>,
      \<lparr>cp_date = ''03/01'', cp_sales = 0\<rparr>]"
    by code_simp
  have guard: "''111'' \<noteq> [] \<and> range_from demoRange = Some 0 \<and> True \<and> ?regular @ ?wholesale \<noteq> []"
    by (simp add: demoRange_def)
  note inst = product_chart_sums [of "''111''" demoRange 0 True ?regular ?wholesale demoCalendar]
  from inst [THEN conjunct1, THEN mp, OF guard]
  have b: "distinct (map cp_date (productSalesChart demoCalendar (Some ''111'') (Some demoRange) True
        ?regular ?wholesale))"
    by (rule conjunct1)
  have "parseLabel (format_ddMM demoCalendar 90000000) =
      (int (dayOfMonth demoCalendar 90000000), int (monthOfYear demoCalendar 90000000))"
    using inst [THEN conjunct2, THEN conjunct1] by (rule spec)
  moreover have "dayOfMonth demoCalendar 90000000 = 2" "monthOfYear demoCalendar 90000000 = 1"
    by (simp_all add: demoCalendar_def)
  ultimately have c: "parseLabel (format_ddMM demoCalendar 90000000) = (2, 1)"
    by simp
  have "''111'' = [] \<or> range_from demoRange = None \<or> \<not> False \<or> [demoSaleRecord ''s1'' (Some 90000000) 2] @ [] = []"
    by simp
  from product_chart_sums [of "''111''" demoRange 0 False "[demoSaleRecord ''s1'' (Some 90000000) 2]" "[]"
      demoCalendar, THEN conjunct2, THEN conjunct2, THEN mp, OF this]
  have d: "productSalesChart demoCalendar (Some ''111'') (Some demoRange) False
        [demoSaleRecord ''s1'' (Some 90000000) 2] [] = []" .
  from a b c d show ?thesis by (intro conjI)
qed


end
